theory Spec2Isabelle
  imports
    Complex_Main
    "HOL-Library.AList"
    "HOL-Library.Char_ord"
    "HOL-Library.List_Lexorder"
    "HOL-Library.Sublist"
begin

section \<open>JavaScript values the program works with\<close>

text \<open>
  A plain JavaScript object used as a dictionary is an association list with distinct
  keys, in property enumeration order: a new key is appended, an existing key keeps its
  place. (Keys that look like array indices, which the engine enumerates first, and keys
  inherited from \<^verbatim>\<open>Object.prototype\<close> such as \<^verbatim>\<open>constructor\<close> are
  not modelled: event kinds, repository names, date keys and language names are not of
  that shape.) JavaScript numbers that hold integers are \<^typ>\<open>int\<close>.
\<close>

type_synonym 'v obj = "(string \<times> 'v) list"

definition obj_get :: "'v obj \<Rightarrow> string \<Rightarrow> 'v option" where
  "obj_get ob k = map_of ob k"

definition obj_set :: "'v obj \<Rightarrow> string \<Rightarrow> 'v \<Rightarrow> 'v obj" where
  "obj_set ob k v = AList.update k v ob"

definition Object_keys :: "'v obj \<Rightarrow> string list" where
  "Object_keys ob = map fst ob"

definition Object_values :: "'v obj \<Rightarrow> 'v list" where
  "Object_values ob = map snd ob"

text \<open>The idiom \<^verbatim>\<open>ob[k] = (ob[k] || 0) + n\<close>.\<close>

definition obj_add :: "int obj \<Rightarrow> string \<Rightarrow> int \<Rightarrow> int obj" where
  "obj_add ob k n = obj_set ob k ((case obj_get ob k of None \<Rightarrow> 0 | Some v \<Rightarrow> v) + n)"

text \<open>\<^verbatim>\<open>xs.slice(0, n)\<close> is \<^term>\<open>take n xs\<close>.\<close>

definition slice0 :: "nat \<Rightarrow> 'a list \<Rightarrow> 'a list" where
  "slice0 n xs = take n xs"

text \<open>
  \<^verbatim>\<open>Math.max(...xs)\<close>: the maximum, and \<open>-Infinity\<close> (here \<open>None\<close>) for no
  argument. \<^verbatim>\<open>xs.indexOf(v)\<close>: the first index holding \<open>v\<close>, and \<open>-1\<close> when
  there is none.
\<close>

fun Math_max :: "int list \<Rightarrow> int option" where
  "Math_max [] = None"
| "Math_max (x # xs) = Some (fold max xs x)"

fun indexOf :: "'a list \<Rightarrow> 'a \<Rightarrow> int" where
  "indexOf [] v = - 1"
| "indexOf (x # xs) v =
     (if x = v then 0 else (let r = indexOf xs v in if r < 0 then - 1 else r + 1))"

subsection \<open>Dates\<close>

text \<open>
  \<^verbatim>\<open>Date\<close> belongs to the runtime, not to the repository. What the program uses of
  it is taken as a parameter: \<open>Date_parse s\<close> is the time value (milliseconds since the
  epoch) of \<^verbatim>\<open>new Date(s)\<close>, \<open>None\<close> for an invalid date (time value NaN), and
  \<open>LocalTZA t\<close> is the offset of the host's time zone at \<open>t\<close>. \<^verbatim>\<open>getHours\<close>
  is then the hour of the local time, as ECMAScript defines it.
\<close>

record runtime =
  Date_parse :: "string \<Rightarrow> int option"
  LocalTZA :: "int \<Rightarrow> int"

definition msPerHour :: int where
  "msPerHour = 3600000"

definition msPerDay :: int where
  "msPerDay = 1000 * 60 * 60 * 24"

definition getHours :: "runtime \<Rightarrow> int \<Rightarrow> nat" where
  "getHours rt t = nat (((t + LocalTZA rt t) div msPerHour) mod 24)"

text \<open>
  \<^verbatim>\<open>Math.round(a / b)\<close> for integers \<open>a\<close> and \<open>b > 0\<close>: the nearest integer,
  a half rounded up.
\<close>

definition Math_round_div :: "int \<Rightarrow> int \<Rightarrow> int" where
  "Math_round_div a b = (2 * a + b) div (2 * b)"

section \<open>The event analyzer (\<^verbatim>\<open>analyzeEvents\<close>)\<close>

text \<open>
  An event as the analyzer reads it: \<^verbatim>\<open>event.type\<close>, \<^verbatim>\<open>event.repo?.name\<close>
  and \<^verbatim>\<open>event.created_at\<close>; \<open>None\<close> is a property that is missing
  (\<^verbatim>\<open>undefined\<close>). The payload is read by the summarizer only.
\<close>

record payload =
  commits :: "string list option"
  pull_request :: "string option"
  issue :: "string option"
  ref_type :: "string option"

record event =
  type :: string
  repo_name :: "string option"
  created_at :: "string option"
  payload :: "payload option"

record tally =
  acc_eventCounts :: "int obj"
  acc_repoActivity :: "int obj"
  acc_dailyActivity :: "int obj"
  acc_hourlyActivity :: "int list"

text \<open>\<^verbatim>\<open>event.repo?.name || 'unknown'\<close>\<close>

definition repoNameOf :: "event \<Rightarrow> string" where
  "repoNameOf ev =
     (case repo_name ev of None \<Rightarrow> ''unknown'' | Some n \<Rightarrow> if n = [] then ''unknown'' else n)"

text \<open>\<^verbatim>\<open>event.created_at?.split('T')[0]\<close>: the text before the first \<open>T\<close>.\<close>

definition dateOf :: "event \<Rightarrow> string option" where
  "dateOf ev = map_option (takeWhile (\<lambda>c. c \<noteq> CHR ''T'')) (created_at ev)"

text \<open>
  \<^verbatim>\<open>new Date(event.created_at).getHours()\<close>: \<open>None\<close> is NaN, for a missing
  timestamp as for one that does not parse.
\<close>

definition hourOf :: "runtime \<Rightarrow> event \<Rightarrow> nat option" where
  "hourOf rt ev =
     (case created_at ev of
        None \<Rightarrow> None
      | Some s \<Rightarrow> (case Date_parse rt s of None \<Rightarrow> None | Some t \<Rightarrow> Some (getHours rt t)))"

definition initial_tally :: tally where
  "initial_tally =
     \<lparr>acc_eventCounts = [], acc_repoActivity = [], acc_dailyActivity = [],
      acc_hourlyActivity = replicate 24 0\<rparr>"

text \<open>One turn of the loop over the events.\<close>

definition tally_event :: "runtime \<Rightarrow> event \<Rightarrow> tally \<Rightarrow> tally" where
  "tally_event rt ev s =
     (let counts = obj_add (acc_eventCounts s) (type ev) 1;
          repos = obj_add (acc_repoActivity s) (repoNameOf ev) 1;
          daily = (case dateOf ev of
                     None \<Rightarrow> acc_dailyActivity s
                   | Some d \<Rightarrow> if d = [] then acc_dailyActivity s
                              else obj_add (acc_dailyActivity s) d 1);
          hourly = (case hourOf rt ev of
                      None \<Rightarrow> acc_hourlyActivity s
                    | Some h \<Rightarrow> (acc_hourlyActivity s)[h := acc_hourlyActivity s ! h + 1])
      in \<lparr>acc_eventCounts = counts, acc_repoActivity = repos, acc_dailyActivity = daily,
          acc_hourlyActivity = hourly\<rparr>)"

definition tally_events :: "runtime \<Rightarrow> event list \<Rightarrow> tally" where
  "tally_events rt events = fold (tally_event rt) events initial_tally"

text \<open>\<^verbatim>\<open>hourlyActivity.indexOf(Math.max(...hourlyActivity))\<close>\<close>

definition peakHourOf :: "int list \<Rightarrow> int" where
  "peakHourOf hourly = (case Math_max hourly of None \<Rightarrow> - 1 | Some m \<Rightarrow> indexOf hourly m)"

text \<open>
  \<^verbatim>\<open>Object.entries(repoActivity).sort((a, b) => b[1] - a[1])\<close>: a stable sort,
  descending by count.
\<close>

definition sortByCountDesc :: "int obj \<Rightarrow> int obj" where
  "sortByCountDesc ob = sort_key (\<lambda>e. - snd e) ob"

text \<open>
  The difference in days between two date keys,
  \<^verbatim>\<open>Math.round((currDate - prevDate) / (1000 * 60 * 60 * 24))\<close>; \<open>None\<close> is NaN.
\<close>

definition diffDays :: "runtime \<Rightarrow> string \<Rightarrow> string \<Rightarrow> int option" where
  "diffDays rt prevKey currKey =
     (case Date_parse rt prevKey of
        None \<Rightarrow> None
      | Some p \<Rightarrow> (case Date_parse rt currKey of
                    None \<Rightarrow> None
                  | Some c \<Rightarrow> Some (Math_round_div (c - p) msPerDay)))"

text \<open>
  The walk over the sorted date keys, from index 1: \<open>cur\<close> is \<^verbatim>\<open>currentStreak\<close>,
  \<open>mx\<close> is \<^verbatim>\<open>maxStreak\<close>; the last equation is the update after the loop.
\<close>

fun streakWalk :: "runtime \<Rightarrow> string list \<Rightarrow> int \<Rightarrow> int \<Rightarrow> int" where
  "streakWalk rt (prevKey # currKey # rest) cur mx =
     (if diffDays rt prevKey currKey = Some 1
      then streakWalk rt (currKey # rest) (cur + 1) mx
      else streakWalk rt (currKey # rest) 1 (max mx cur))"
| "streakWalk rt dates cur mx = max mx cur"

definition streakOf :: "runtime \<Rightarrow> string list \<Rightarrow> int" where
  "streakOf rt dates = (if length dates > 0 then streakWalk rt dates 1 0 else 0)"

record eventAnalysis =
  eventCounts :: "int obj"
  repoActivity :: "int obj"
  peakHour :: int
  activityStreak :: int
  totalEvents :: int
  mostActiveRepo :: "string option"
  dailyActivity :: "int obj"

definition analyzeEvents :: "runtime \<Rightarrow> event list \<Rightarrow> eventAnalysis" where
  "analyzeEvents rt events =
     (let s = tally_events rt events;
          sortedRepos = sortByCountDesc (acc_repoActivity s);
          dates = sort (Object_keys (acc_dailyActivity s))
      in \<lparr>eventCounts = acc_eventCounts s,
          repoActivity = slice0 5 sortedRepos,
          peakHour = peakHourOf (acc_hourlyActivity s),
          activityStreak = streakOf rt dates,
          totalEvents = int (length events),
          mostActiveRepo = (case sortedRepos of [] \<Rightarrow> None | e # _ \<Rightarrow> Some (fst e)),
          dailyActivity = acc_dailyActivity s\<rparr>)"

subsection \<open>A runtime for ISO timestamps in UTC\<close>

text \<open>
  The ECMAScript date-time string format, for the two forms the data source sends and
  the analyzer builds: the date \<^verbatim>\<open>YYYY-MM-DD\<close>, read as midnight UTC, and
  \<^verbatim>\<open>YYYY-MM-DDTHH:mm:ssZ\<close>. Day numbers are ECMAScript's: \<open>DayFromYear\<close>,
  the leap-year rule and the lengths of the months. Any other string is an invalid date
  for \<open>utcRuntime\<close>; an engine may accept more, which is why the analyzer takes its
  runtime as a parameter.
\<close>

definition isDigit :: "char \<Rightarrow> bool" where
  "isDigit c = (CHR ''0'' \<le> c \<and> c \<le> CHR ''9'')"

definition digitVal :: "char \<Rightarrow> int" where
  "digitVal c = int (of_char c) - 48"

definition num2 :: "char \<Rightarrow> char \<Rightarrow> int" where
  "num2 a b = 10 * digitVal a + digitVal b"

definition num4 :: "char \<Rightarrow> char \<Rightarrow> char \<Rightarrow> char \<Rightarrow> int" where
  "num4 a b c d = 1000 * digitVal a + 100 * digitVal b + 10 * digitVal c + digitVal d"

definition InLeapYear :: "int \<Rightarrow> bool" where
  "InLeapYear y = ((y mod 4 = 0 \<and> y mod 100 \<noteq> 0) \<or> y mod 400 = 0)"

definition DayFromYear :: "int \<Rightarrow> int" where
  "DayFromYear y =
     365 * (y - 1970) + (y - 1969) div 4 - (y - 1901) div 100 + (y - 1601) div 400"

definition DaysInMonth :: "int \<Rightarrow> int \<Rightarrow> int" where
  "DaysInMonth y m =
     (if m = 2 then (if InLeapYear y then 29 else 28)
      else if m = 4 \<or> m = 6 \<or> m = 9 \<or> m = 11 then 30 else 31)"

definition monthStart :: "int \<Rightarrow> int \<Rightarrow> int" where
  "monthStart y m = sum_list (map (DaysInMonth y) [1..m - 1])"

definition dayNumber :: "int \<Rightarrow> int \<Rightarrow> int \<Rightarrow> int" where
  "dayNumber y m d = DayFromYear y + monthStart y m + d - 1"

fun isoDate :: "string \<Rightarrow> (int \<times> int \<times> int) option" where
  "isoDate [y1, y2, y3, y4, h1, m1, m2, h2, d1, d2] =
     (if h1 = CHR ''-'' \<and> h2 = CHR ''-'' \<and> list_all isDigit [y1, y2, y3, y4, m1, m2, d1, d2]
      then (let y = num4 y1 y2 y3 y4; m = num2 m1 m2; d = num2 d1 d2
            in if 1 \<le> m \<and> m \<le> 12 \<and> 1 \<le> d \<and> d \<le> DaysInMonth y m then Some (y, m, d)
               else None)
      else None)"
| "isoDate s = None"

fun isoTime :: "string \<Rightarrow> int option" where
  "isoTime [h1, h2, c1, m1, m2, c2, s1, s2] =
     (if c1 = CHR '':'' \<and> c2 = CHR '':'' \<and> list_all isDigit [h1, h2, m1, m2, s1, s2]
      then (let h = num2 h1 h2; mi = num2 m1 m2; sec = num2 s1 s2
            in if (h \<le> 23 \<and> mi \<le> 59 \<and> sec \<le> 59) \<or> (h = 24 \<and> mi = 0 \<and> sec = 0)
               then Some (h * msPerHour + mi * 60000 + sec * 1000)
               else None)
      else None)"
| "isoTime s = None"

definition isoDay :: "string \<Rightarrow> int option" where
  "isoDay s = (case isoDate s of None \<Rightarrow> None | Some (y, m, d) \<Rightarrow> Some (dayNumber y m d))"

definition isoParse :: "string \<Rightarrow> int option" where
  "isoParse s =
     (case isoDay s of
        Some n \<Rightarrow> Some (msPerDay * n)
      | None \<Rightarrow>
          if length s = 20 \<and> s ! 10 = CHR ''T'' \<and> s ! 19 = CHR ''Z''
          then (case isoDay (take 10 s) of
                  None \<Rightarrow> None
                | Some n \<Rightarrow> (case isoTime (take 8 (drop 11 s)) of
                              None \<Rightarrow> None
                            | Some t \<Rightarrow> Some (msPerDay * n + t)))
          else None)"

definition utcRuntime :: runtime where
  "utcRuntime = \<lparr>Date_parse = isoParse, LocalTZA = (\<lambda>t. 0)\<rparr>"

text \<open>
  A runtime conforms on dates when it reads every valid \<^verbatim>\<open>YYYY-MM-DD\<close> as
  midnight UTC of that day, as ECMAScript requires.
\<close>

definition conforming :: "runtime \<Rightarrow> bool" where
  "conforming rt = (\<forall>s n. isoDay s = Some n \<longrightarrow> Date_parse rt s = Some (msPerDay * n))"

subsection \<open>Notions the properties of the analyzer are stated with\<close>



text \<open>The key an event is counted under in the daily tracking, if any.\<close>

definition dayKey :: "event \<Rightarrow> string option" where
  "dayKey ev = (case dateOf ev of None \<Rightarrow> None | Some d \<Rightarrow> if d = [] then None else Some d)"


definition countWhere :: "('a \<Rightarrow> bool) \<Rightarrow> 'a list \<Rightarrow> int" where
  "countWhere P xs = int (length (filter P xs))"

text \<open>The counter a loop builds when each element is counted under its key, if it has one.\<close>

definition tallyBy :: "('a \<Rightarrow> string option) \<Rightarrow> 'a list \<Rightarrow> int obj \<Rightarrow> int obj" where
  "tallyBy g xs ob = fold (\<lambda>x acc. case g x of None \<Rightarrow> acc | Some k \<Rightarrow> obj_add acc k 1) xs ob"

subsection \<open>Example inputs\<close>

definition peakExample :: "event list" where
  "peakExample =
     [\<lparr>type = ''PushEvent'', repo_name = Some ''test/repo'',
       created_at = Some ''2024-01-15T10:00:00Z'', payload = None\<rparr>,
      \<lparr>type = ''PushEvent'', repo_name = Some ''test/repo'',
       created_at = Some ''2024-01-15T10:30:00Z'', payload = None\<rparr>,
      \<lparr>type = ''PushEvent'', repo_name = Some ''test/repo'',
       created_at = Some ''2024-01-15T15:00:00Z'', payload = None\<rparr>]"


section \<open>Text helpers\<close>

text \<open>Template literals print an integer in decimal.\<close>

definition digitChar :: "nat \<Rightarrow> char" where
  "digitChar n = char_of (48 + n)"

fun natDigits :: "nat \<Rightarrow> string" where
  "natDigits n = (if n < 10 then [digitChar n] else natDigits (n div 10) @ [digitChar (n mod 10)])"

declare natDigits.simps [simp del]

definition showInt :: "int \<Rightarrow> string" where
  "showInt i = (if i < 0 then CHR ''-'' # natDigits (nat (- i)) else natDigits (nat i))"

text \<open>\<^verbatim>\<open>s.split(c)\<close> for a one-character separator, and \<^verbatim>\<open>xs.join(sep)\<close>.\<close>

fun splitOn :: "char \<Rightarrow> string \<Rightarrow> string list" where
  "splitOn c [] = [[]]"
| "splitOn c (x # xs) =
     (if x = c then [] # splitOn c xs
      else (case splitOn c xs of [] \<Rightarrow> [[x]] | w # ws \<Rightarrow> (x # w) # ws))"

fun join :: "string \<Rightarrow> string list \<Rightarrow> string" where
  "join sep [] = []"
| "join sep [x] = x"
| "join sep (x # y # ys) = x @ sep @ join sep (y # ys)"

text \<open>\<^verbatim>\<open>s.split('/')[1] || s\<close>\<close>

definition shortName :: "string \<Rightarrow> string" where
  "shortName s = (case splitOn CHR ''/'' s of a # b # rest \<Rightarrow> if b = [] then s else b | _ \<Rightarrow> s)"

section \<open>The contribution aggregator (\<^verbatim>\<open>fetchContributionStats\<close>)\<close>

text \<open>
  A repository as the aggregator reads it; \<open>language = None\<close> is \<^verbatim>\<open>null\<close>. The
  repository list comes from the data source: the outcome of \<^verbatim>\<open>fetchUserRepos\<close>
  is either a failure, which the aggregator lets through, or the list.
\<close>

record repository =
  full_name :: string
  language :: "string option"
  repo_size :: int
  stargazers_count :: int
  forks_count :: int

datatype failure = HttpFailure nat | OtherFailure string

record contributionStats =
  totalStars :: int
  totalForks :: int
  totalRepos :: int
  languages :: "int obj"
  recentRepos :: "repository list"

text \<open>One turn of the loop over \<^verbatim>\<open>repos.slice(0, 20)\<close>.\<close>

definition addLanguage :: "repository \<Rightarrow> int obj \<Rightarrow> int obj" where
  "addLanguage r languageStats =
     (case language r of
        None \<Rightarrow> languageStats
      | Some l \<Rightarrow> if l = [] then languageStats else obj_add languageStats l (repo_size r))"

definition aggregate :: "repository list \<Rightarrow> contributionStats" where
  "aggregate repos =
     \<lparr>totalStars = fold (\<lambda>r acc. acc + stargazers_count r) repos 0,
      totalForks = fold (\<lambda>r acc. acc + forks_count r) repos 0,
      totalRepos = int (length repos),
      languages = fold addLanguage (slice0 20 repos) [],
      recentRepos = slice0 10 repos\<rparr>"

definition fetchContributionStats ::
  "(string \<Rightarrow> string option \<Rightarrow> failure + repository list) \<Rightarrow> string \<Rightarrow> string option \<Rightarrow>
     failure + contributionStats" where
  "fetchContributionStats fetchUserRepos user token =
     (case fetchUserRepos user token of
        Inl e \<Rightarrow> Inl e
      | Inr repos \<Rightarrow> Inr (aggregate repos))"


section \<open>The summary synthesizer (\<^verbatim>\<open>generateActivitySummary\<close>)\<close>

record profile =
  login :: string
  name :: "string option"
  avatar_url :: "string option"
  html_url :: "string option"

record pattern =
  pattern_type :: string
  severity :: "string option"
  description :: string

record project =
  project_name :: string
  fullName :: string
  activityType :: string
  lastActive :: "string option"
  detail :: "string option"

record stats =
  stats_totalEvents :: int
  stats_totalRepos :: int
  stats_totalStars :: int
  stats_activityStreak :: int

record summaryData =
  username :: string
  displayName :: string
  avatarUrl :: "string option"
  profileUrl :: "string option"
  notablePatterns :: "pattern list"
  achievements :: "string list"
  activityHighlights :: "string list"
  primaryLanguage :: "string option"
  summary_languages :: "string list"
  recentProjects :: "project list"
  summary :: string
  stats :: stats

definition EVENT_DESCRIPTIONS :: "string obj" where
  "EVENT_DESCRIPTIONS =
     [(''PushEvent'', ''code commits''),
      (''PullRequestEvent'', ''pull requests''),
      (''IssuesEvent'', ''issues''),
      (''CreateEvent'', ''repository/branch creations''),
      (''DeleteEvent'', ''branch deletions''),
      (''WatchEvent'', ''repository stars''),
      (''ForkEvent'', ''repository forks''),
      (''IssueCommentEvent'', ''issue comments''),
      (''PullRequestReviewEvent'', ''code reviews''),
      (''PullRequestReviewCommentEvent'', ''review comments''),
      (''CommitCommentEvent'', ''commit comments''),
      (''ReleaseEvent'', ''releases''),
      (''PublicEvent'', ''repository publications''),
      (''MemberEvent'', ''collaborator additions''),
      (''GollumEvent'', ''wiki updates'')]"

text \<open>\<^verbatim>\<open>profile.name || profile.login\<close>\<close>

definition nameOrLogin :: "profile \<Rightarrow> string" where
  "nameOrLogin p = (case name p of None \<Rightarrow> login p | Some n \<Rightarrow> if n = [] then login p else n)"

text \<open>The detail line of a project, from the payload of its first event.\<close>

definition projectDetail :: "event \<Rightarrow> string option" where
  "projectDetail ev =
     (let pl = payload ev;
          cs = (case pl of None \<Rightarrow> None | Some p \<Rightarrow> commits p);
          pr = (case pl of None \<Rightarrow> None | Some p \<Rightarrow> pull_request p);
          iss = (case pl of None \<Rightarrow> None | Some p \<Rightarrow> issue p);
          rt = (case pl of None \<Rightarrow> None | Some p \<Rightarrow> ref_type p)
      in if type ev = ''PushEvent'' \<and> cs \<noteq> None
         then (let commitCount = length (the cs)
               in Some (showInt (int commitCount) @ '' commit'' @ (if commitCount > 1 then ''s'' else '''')))
         else if type ev = ''PullRequestEvent'' \<and> pr \<noteq> None then pr
         else if type ev = ''IssuesEvent'' \<and> iss \<noteq> None then iss
         else if type ev = ''CreateEvent'' \<and> rt \<noteq> None \<and> rt \<noteq> Some [] then Some (''Created '' @ the rt)
         else None)"

text \<open>
  One turn of the loop of \<^verbatim>\<open>extractRecentProjects\<close>; the \<^verbatim>\<open>Map\<close> keeps its
  keys in insertion order.
\<close>

definition addProject :: "event \<Rightarrow> project obj \<Rightarrow> project obj" where
  "addProject ev projectMap =
     (case repo_name ev of
        None \<Rightarrow> projectMap
      | Some repoName \<Rightarrow>
          if repoName = [] \<or> obj_get projectMap repoName \<noteq> None then projectMap
          else obj_set projectMap repoName
                 \<lparr>project_name = shortName repoName,
                  fullName = repoName,
                  activityType = (case obj_get EVENT_DESCRIPTIONS (type ev) of
                                    None \<Rightarrow> type ev | Some d \<Rightarrow> d),
                  lastActive = created_at ev,
                  detail = projectDetail ev\<rparr>)"

definition extractRecentProjects :: "event list \<Rightarrow> project list" where
  "extractRecentProjects evs = slice0 5 (Object_values (fold addProject evs []))"

text \<open>\<^verbatim>\<open>Object.entries(languages).sort((a, b) => b[1] - a[1])[0]?.[0]\<close>\<close>

definition primaryLanguageOf :: "int obj \<Rightarrow> string option" where
  "primaryLanguageOf langs = (case sortByCountDesc langs of [] \<Rightarrow> None | e # rest \<Rightarrow> Some (fst e))"

text \<open>
  The test \<^verbatim>\<open>c && c / t > 0.5\<close> on integers: a division by zero gives an
  infinity of the sign of \<open>c\<close>.
\<close>

definition moreThanHalf :: "int \<Rightarrow> int \<Rightarrow> bool" where
  "moreThanHalf c t =
     (c \<noteq> 0 \<and> (if t = 0 then c > 0 else if t > 0 then 2 * c > t else 2 * c < t))"

definition countOf :: "int obj \<Rightarrow> string \<Rightarrow> int" where
  "countOf ob k = (case obj_get ob k of None \<Rightarrow> 0 | Some v \<Rightarrow> v)"

definition streakPatterns :: "int \<Rightarrow> pattern list" where
  "streakPatterns streak =
     (if streak \<ge> 7
      then [\<lparr>pattern_type = ''streak'',
             severity = Some (if streak \<ge> 30 then ''exceptional'' else ''notable''),
             description = showInt streak @ ''-day activity streak''\<rparr>]
      else [])"

definition timeDescription :: "int \<Rightarrow> string" where
  "timeDescription h =
     (if h \<ge> 0 \<and> h < 6 then ''a night owl, most active in the early morning hours''
      else if h \<ge> 6 \<and> h < 12 then ''an early bird, most productive in the morning''
      else if h \<ge> 12 \<and> h < 18 then ''most active during afternoon hours''
      else ''an evening coder, most active in the late hours'')"

definition generateHumanReadableSummary ::
  "profile \<Rightarrow> pattern list \<Rightarrow> string list \<Rightarrow> string option \<Rightarrow> project list \<Rightarrow>
     contributionStats \<Rightarrow> string" where
  "generateHumanReadableSummary p pats achs primary projs cs =
     (let opening =
            (case primary of
               Some l \<Rightarrow> if l = [] then [nameOrLogin p @ '' is an active developer on GitHub.'']
                         else [nameOrLogin p @ '' is a developer who primarily works with '' @ l @ ''.'']
             | None \<Rightarrow> [nameOrLogin p @ '' is an active developer on GitHub.'']);
          schedule =
            (case find (\<lambda>q. pattern_type q = ''schedule'') pats of
               None \<Rightarrow> []
             | Some q \<Rightarrow> [''They are '' @ description q @ ''.'']);
          streak =
            (case find (\<lambda>q. pattern_type q = ''streak'') pats of
               None \<Rightarrow> []
             | Some q \<Rightarrow>
                 if severity q = Some ''exceptional''
                 then [''Impressively, they've maintained a '' @ description q @ ''!'']
                 else [''They've been on a '' @ description q @ ''.'']);
          recent =
            (if length projs > 0
             then [''Recently active on: '' @ join '', '' (map project_name (slice0 3 projs)) @ ''.'']
             else []);
          notable =
            (if length achs > 0 then [''Notable: '' @ join '', '' achs @ ''.''] else []);
          statParts =
            (if totalRepos cs > 0 then [showInt (totalRepos cs) @ '' repositories''] else []) @
            (if totalStars cs > 0 then [showInt (totalStars cs) @ '' stars earned''] else []);
          statLine =
            (if totalRepos cs > 0 \<or> totalStars cs > 0
             then [''Stats: '' @ join '', '' statParts @ ''.'']
             else [])
      in join '' '' (opening @ schedule @ streak @ recent @ notable @ statLine))"

definition generateActivitySummary ::
  "profile \<Rightarrow> eventAnalysis \<Rightarrow> contributionStats \<Rightarrow> event list \<Rightarrow> summaryData" where
  "generateActivitySummary p ea cs evs =
     (let pats = streakPatterns (activityStreak ea) @
                 [\<lparr>pattern_type = ''schedule'', severity = None,
                   description = timeDescription (peakHour ea)\<rparr>];
          focus = (case mostActiveRepo ea of
                     None \<Rightarrow> []
                   | Some r \<Rightarrow> if r = [] then []
                               else [''Heavily focused on \"'' @ shortName r @ ''\"'']);
          pushes = countOf (eventCounts ea) ''PushEvent'';
          reviews = countOf (eventCounts ea) ''PullRequestReviewEvent'';
          issues = countOf (eventCounts ea) ''IssuesEvent'';
          highlights = focus @
            (if moreThanHalf pushes (totalEvents ea) then [''Primarily focused on pushing code''] else []) @
            (if reviews > 5 then [''Active code reviewer''] else []) @
            (if issues > 10 then [''Active issue tracker''] else []);
          langs = Object_keys (languages cs);
          achs =
            (if reviews > 5 then [''Code Review Champion''] else []) @
            (if totalStars cs \<ge> 100 then [''Earned '' @ showInt (totalStars cs) @ '' stars''] else []) @
            (if totalRepos cs \<ge> 50 then [''Prolific creator with 50+ repositories''] else []) @
            (if length langs \<ge> 5
             then [''Polyglot developer using '' @ showInt (int (length langs)) @ '' languages'']
             else []);
          primary = primaryLanguageOf (languages cs);
          projs = extractRecentProjects evs
      in \<lparr>username = login p,
          displayName = nameOrLogin p,
          avatarUrl = avatar_url p,
          profileUrl = html_url p,
          notablePatterns = pats,
          achievements = achs,
          activityHighlights = highlights,
          primaryLanguage = primary,
          summary_languages = slice0 5 langs,
          recentProjects = projs,
          summary = generateHumanReadableSummary p pats achs primary projs cs,
          stats = \<lparr>stats_totalEvents = totalEvents ea,
                   stats_totalRepos = totalRepos cs,
                   stats_totalStars = totalStars cs,
                   stats_activityStreak = activityStreak ea\<rparr>\<rparr>)"

text \<open>Whether a list of language names is in descending order of the sizes in a mapping.\<close>

definition sizeOf :: "int obj \<Rightarrow> string \<Rightarrow> int" where
  "sizeOf langs l = countOf langs l"

definition descendingBySize :: "int obj \<Rightarrow> string list \<Rightarrow> bool" where
  "descendingBySize langs names = sorted_wrt (\<lambda>a b. sizeOf langs a \<ge> sizeOf langs b) names"

definition hasStreakPattern :: "summaryData \<Rightarrow> bool" where
  "hasStreakPattern s = list_ex (\<lambda>q. pattern_type q = ''streak'') (notablePatterns s)"

text \<open>
  The names of a list without its repetitions, each at its first place, and the
  languages the aggregator counts, in the order of the repositories.
\<close>

fun firstSeen :: "string list \<Rightarrow> string list" where
  "firstSeen [] = []"
| "firstSeen (x # xs) = x # filter (\<lambda>y. y \<noteq> x) (firstSeen xs)"

definition languageNames :: "repository list \<Rightarrow> string list" where
  "languageNames repos =
     concat (map (\<lambda>r. case language r of None \<Rightarrow> [] | Some l \<Rightarrow> if l = [] then [] else [l]) repos)"

definition exampleProfile :: profile where
  "exampleProfile =
     \<lparr>login = ''testuser'', name = Some ''Test User'', avatar_url = None, html_url = None\<rparr>"

definition exampleAnalysis :: "int \<Rightarrow> eventAnalysis" where
  "exampleAnalysis streak =
     \<lparr>eventCounts = [(''PushEvent'', 50), (''PullRequestEvent'', 10)],
      repoActivity = [(''testuser/main-project'', 30)],
      peakHour = 10,
      activityStreak = streak,
      totalEvents = 60,
      mostActiveRepo = Some ''testuser/main-project'',
      dailyActivity = []\<rparr>"

definition exampleStats :: "int obj \<Rightarrow> contributionStats" where
  "exampleStats langs =
     \<lparr>totalStars = 150, totalForks = 30, totalRepos = 25, languages = langs, recentRepos = []\<rparr>"


section \<open>The card renderer\<close>

subsection \<open>Themes\<close>

record theme =
  background :: string
  border :: string
  title :: string
  text_color :: string
  icon :: string
  accent :: string

definition themes :: "theme obj" where
  "themes =
     [(''default'',
       \<lparr>background = ''#ffffff'', border = ''#e4e2e2'', title = ''#2f80ed'',
        text_color = ''#434d58'', icon = ''#4c71f2'', accent = ''#2f80ed''\<rparr>),
      (''dark'',
       \<lparr>background = ''#151515'', border = ''#e4e2e2'', title = ''#fff'',
        text_color = ''#9f9f9f'', icon = ''#79ff97'', accent = ''#79ff97''\<rparr>),
      (''radical'',
       \<lparr>background = ''#141321'', border = ''#e4e2e2'', title = ''#fe428e'',
        text_color = ''#a9fef7'', icon = ''#f8d847'', accent = ''#fe428e''\<rparr>),
      (''merko'',
       \<lparr>background = ''#0a0f0b'', border = ''#e4e2e2'', title = ''#abd200'',
        text_color = ''#68b587'', icon = ''#b7d364'', accent = ''#abd200''\<rparr>),
      (''gruvbox'',
       \<lparr>background = ''#282828'', border = ''#e4e2e2'', title = ''#fabd2f'',
        text_color = ''#8ec07c'', icon = ''#fe8019'', accent = ''#fabd2f''\<rparr>),
      (''tokyonight'',
       \<lparr>background = ''#1a1b27'', border = ''#e4e2e2'', title = ''#70a5fd'',
        text_color = ''#38bdae'', icon = ''#bf91f3'', accent = ''#70a5fd''\<rparr>),
      (''onedark'',
       \<lparr>background = ''#282c34'', border = ''#e4e2e2'', title = ''#e4bf7a'',
        text_color = ''#df6d74'', icon = ''#8eb573'', accent = ''#e4bf7a''\<rparr>),
      (''cobalt'',
       \<lparr>background = ''#193549'', border = ''#e4e2e2'', title = ''#e683d9'',
        text_color = ''#75eeb2'', icon = ''#0480ef'', accent = ''#e683d9''\<rparr>),
      (''synthwave'',
       \<lparr>background = ''#2b213a'', border = ''#e4e2e2'', title = ''#e2e9ec'',
        text_color = ''#e5289e'', icon = ''#ef8539'', accent = ''#f97583''\<rparr>),
      (''highcontrast'',
       \<lparr>background = ''#000000'', border = ''#e4e2e2'', title = ''#e7f216'',
        text_color = ''#fff'', icon = ''#00ffff'', accent = ''#e7f216''\<rparr>),
      (''dracula'',
       \<lparr>background = ''#282a36'', border = ''#e4e2e2'', title = ''#ff79c6'',
        text_color = ''#f8f8f2'', icon = ''#bd93f9'', accent = ''#ff79c6''\<rparr>),
      (''monokai'',
       \<lparr>background = ''#272822'', border = ''#e4e2e2'', title = ''#f92672'',
        text_color = ''#f8f8f2'', icon = ''#66d9ef'', accent = ''#a6e22e''\<rparr>),
      (''vue'',
       \<lparr>background = ''#35495e'', border = ''#e4e2e2'', title = ''#41b883'',
        text_color = ''#fffffe'', icon = ''#41b883'', accent = ''#41b883''\<rparr>),
      (''vue-dark'',
       \<lparr>background = ''#0d1117'', border = ''#e4e2e2'', title = ''#42b883'',
        text_color = ''#adbac7'', icon = ''#42b883'', accent = ''#42b883''\<rparr>),
      (''github'',
       \<lparr>background = ''#ffffff'', border = ''#e4e2e2'', title = ''#0366d6'',
        text_color = ''#586069'', icon = ''#0366d6'', accent = ''#0366d6''\<rparr>),
      (''github-dark'',
       \<lparr>background = ''#0d1117'', border = ''#30363d'', title = ''#58a6ff'',
        text_color = ''#c9d1d9'', icon = ''#58a6ff'', accent = ''#58a6ff''\<rparr>),
      (''nord'',
       \<lparr>background = ''#2e3440'', border = ''#e4e2e2'', title = ''#88c0d0'',
        text_color = ''#d8dee9'', icon = ''#81a1c1'', accent = ''#88c0d0''\<rparr>),
      (''algolia'',
       \<lparr>background = ''#050f2c'', border = ''#e4e2e2'', title = ''#00aeff'',
        text_color = ''#ffffff'', icon = ''#2dde98'', accent = ''#00aeff''\<rparr>),
      (''sunset'',
       \<lparr>background = ''#1a1a2e'', border = ''#e4e2e2'', title = ''#ffc857'',
        text_color = ''#e8e8e8'', icon = ''#e94560'', accent = ''#ffc857''\<rparr>),
      (''ocean'',
       \<lparr>background = ''#0f4c75'', border = ''#3282b8'', title = ''#bbe1fa'',
        text_color = ''#ffffff'', icon = ''#1b262c'', accent = ''#bbe1fa''\<rparr>)]"


subsection \<open>Escaping and wrapping\<close>

text \<open>\<^verbatim>\<open>s.replace(/c/g, r)\<close> for a single character \<open>c\<close>.\<close>

definition replaceAll :: "char \<Rightarrow> string \<Rightarrow> string \<Rightarrow> string" where
  "replaceAll c r s = concat (map (\<lambda>x. if x = c then r else [x]) s)"

definition escapeHtml :: "string \<Rightarrow> string" where
  "escapeHtml str =
     (if str = [] then []
      else replaceAll (CHR 0x27) ''&#39;''
            (replaceAll (CHR 0x22) ''&quot;''
              (replaceAll CHR ''>'' ''&gt;''
                (replaceAll CHR ''<'' ''&lt;''
                  (replaceAll CHR ''&'' ''&amp;'' str)))))"

text \<open>
  \<^verbatim>\<open>s.trim()\<close>. Strings are sequences of code units below 256; of these the white
  space and line terminators of ECMAScript are tab, line feed, vertical tab, form feed,
  carriage return, space and the no-break space.
\<close>

definition isWhiteSpace :: "char \<Rightarrow> bool" where
  "isWhiteSpace c = (c \<in> set [CHR 0x09, CHR 0x0A, CHR 0x0B, CHR 0x0C, CHR 0x0D, CHR 0x20, CHR 0xA0])"

definition trim :: "string \<Rightarrow> string" where
  "trim s = rev (dropWhile isWhiteSpace (rev (dropWhile isWhiteSpace s)))"



subsection \<open>The activity card (\<^verbatim>\<open>generateActivityCard\<close>)\<close>

























subsection \<open>Notions the properties of the card are stated with\<close>







section \<open>The service entry point (\<^verbatim>\<open>handler\<close>)\<close>

subsection \<open>The login grammar\<close>

text \<open>
  The regular expression
  \<^verbatim>\<open>/^[a-zA-Z0-9](?:[a-zA-Z0-9]|-(?=[a-zA-Z0-9])){0,38}$/\<close>:
  \<open>loginTail n\<close> is the group repeated at most \<open>n\<close> times up to the end of the
  input; each turn takes one character, a hyphen only when the next one is alphanumeric.
\<close>

definition isAlnum :: "char \<Rightarrow> bool" where
  "isAlnum c =
     ((CHR ''a'' \<le> c \<and> c \<le> CHR ''z'') \<or> (CHR ''A'' \<le> c \<and> c \<le> CHR ''Z'') \<or>
      (CHR ''0'' \<le> c \<and> c \<le> CHR ''9''))"

fun loginTail :: "nat \<Rightarrow> string \<Rightarrow> bool" where
  "loginTail n [] = True"
| "loginTail 0 (c # cs) = False"
| "loginTail (Suc n) (c # cs) =
     ((isAlnum c \<or> (c = CHR ''-'' \<and> (case cs of [] \<Rightarrow> False | d # ds \<Rightarrow> isAlnum d))) \<and>
      loginTail n cs)"

definition usernameRegex :: "string \<Rightarrow> bool" where
  "usernameRegex s = (case s of [] \<Rightarrow> False | c # cs \<Rightarrow> isAlnum c \<and> loginTail 38 cs)"

text \<open>
  The ways in which a string violates the login grammar: a character that is neither
  alphanumeric nor a hyphen, a leading, trailing or doubled hyphen, more than 39
  characters.
\<close>

definition violatesLoginGrammar :: "string \<Rightarrow> bool" where
  "violatesLoginGrammar u =
     (list_ex (\<lambda>c. \<not> (isAlnum c \<or> c = CHR ''-'')) u \<or>
      (u \<noteq> [] \<and> hd u = CHR ''-'') \<or>
      (u \<noteq> [] \<and> last u = CHR ''-'') \<or>
      sublist ''--'' u \<or>
      length u > 39)"

subsection \<open>Requests, responses and the world around the handler\<close>

text \<open>
  The query parameters and the one header the handler reads; \<open>None\<close> is a parameter
  that is not given.
\<close>

record request =
  q_username :: "string option"
  q_theme :: "string option"
  q_type :: "string option"
  q_border :: "string option"
  q_border_radius :: "string option"
  q_hide_stats :: "string option"
  q_hide_projects :: "string option"
  q_cache_seconds :: "string option"
  h_x_github_token :: "string option"

datatype jsonValue = JStr string | JArr "string list"

datatype responseBody = Json "(string \<times> jsonValue) list" | Text string

record response =
  status :: nat
  headers :: "(string \<times> string) list"
  body :: responseBody

text \<open>
  The data source answers each of the three requests with a failure or with data. The
  world holds what the handler changes: the cache (a \<^verbatim>\<open>Map\<close>, in insertion
  order, of summary and time stamp), the requests sent to the data source so far, and how
  often the clock has been read.
\<close>

record upstream =
  getUser :: "string \<Rightarrow> string option \<Rightarrow> failure + profile"
  getEvents :: "string \<Rightarrow> string option \<Rightarrow> failure + event list"
  getRepos :: "string \<Rightarrow> string option \<Rightarrow> failure + repository list"

record world =
  cache :: "(summaryData \<times> int) obj"
  requests :: "string list"
  ticks :: nat

record activityData =
  data_profile :: profile
  data_events :: "event list"
  data_eventAnalysis :: eventAnalysis
  data_contributionStats :: contributionStats
  data_fetchedAt :: int

text \<open>
  The options the handler hands to a card generator. \<^verbatim>\<open>parseFloat\<close> is not
  evaluated: the radius is kept as the text it is parsed from, \<open>None\<close> for the default.
  The three generators are imports of the handler and parameters of the model, with the
  runtime, the data source, the clock and the token of the environment.
\<close>

record handlerOptions =
  ho_theme :: string
  ho_showBorder :: bool
  ho_borderRadius :: "string option"
  ho_hideStats :: bool
  ho_hideProjects :: bool

record deps =
  dep_runtime :: runtime
  dep_upstream :: upstream
  dep_clock :: "nat \<Rightarrow> int"
  dep_GITHUB_TOKEN :: "string option"
  dep_activityCard :: "summaryData \<Rightarrow> handlerOptions \<Rightarrow> string"
  dep_compactCard :: "summaryData \<Rightarrow> handlerOptions \<Rightarrow> string"
  dep_languagesCard :: "summaryData \<Rightarrow> handlerOptions \<Rightarrow> string"

subsection \<open>Fetching and caching\<close>

text \<open>
  The message of the error that \<^verbatim>\<open>fetchAllActivityData\<close> throws for a failure;
  an HTTP failure that it does not translate keeps the message of the HTTP client.
\<close>

definition failureMessage :: "string \<Rightarrow> failure \<Rightarrow> string" where
  "failureMessage user f =
     (case f of
        HttpFailure n \<Rightarrow>
          if n = 404 then ''User \"'' @ user @ ''\" not found''
          else if n = 403
          then ''GitHub API rate limit exceeded. Please try again later or provide a token.''
          else ''Request failed with status code '' @ showInt (int n)
      | OtherFailure m \<Rightarrow> m)"

text \<open>
  The three requests are sent together; when several fail, the model reports the failure
  of the first in the order profile, events, repositories.
\<close>

definition fetchAllActivityData ::
  "deps \<Rightarrow> string \<Rightarrow> string option \<Rightarrow> world \<Rightarrow> (string + activityData) \<times> world" where
  "fetchAllActivityData d user token w =
     (let w1 = w\<lparr>requests := requests w @
                   [''/users/'' @ user, ''/users/'' @ user @ ''/events/public'',
                    ''/users/'' @ user @ ''/repos'']\<rparr>
      in case getUser (dep_upstream d) user token of
           Inl f \<Rightarrow> (Inl (failureMessage user f), w1)
         | Inr p \<Rightarrow>
             (case getEvents (dep_upstream d) user token of
                Inl f \<Rightarrow> (Inl (failureMessage user f), w1)
              | Inr evs \<Rightarrow>
                  (case fetchContributionStats (getRepos (dep_upstream d)) user token of
                     Inl f \<Rightarrow> (Inl (failureMessage user f), w1)
                   | Inr cs \<Rightarrow>
                       (Inr \<lparr>data_profile = p, data_events = evs,
                              data_eventAnalysis = analyzeEvents (dep_runtime d) evs,
                              data_contributionStats = cs,
                              data_fetchedAt = dep_clock d (ticks w1)\<rparr>,
                        w1\<lparr>ticks := Suc (ticks w1)\<rparr>))))"

definition CACHE_TTL :: int where
  "CACHE_TTL = 4 * 60 * 60 * 1000"

definition storeSummary :: "deps \<Rightarrow> string \<Rightarrow> summaryData \<Rightarrow> world \<Rightarrow> world" where
  "storeSummary d cacheKey summaryData w =
     (let stored = obj_set (cache w) cacheKey (summaryData, dep_clock d (ticks w));
          kept = (if length stored > 1000 then tl stored else stored)
      in w\<lparr>cache := kept, ticks := Suc (ticks w)\<rparr>)"

definition getCachedData ::
  "deps \<Rightarrow> string \<Rightarrow> string option \<Rightarrow> world \<Rightarrow> (string + summaryData) \<times> world" where
  "getCachedData d user token w =
     (let cacheKey = ''user:'' @ user;
          fetch = (\<lambda>w0. case fetchAllActivityData d user token w0 of
                     (Inl msg, w1) \<Rightarrow> (Inl msg, w1)
                   | (Inr a, w1) \<Rightarrow>
                       (let summaryData = generateActivitySummary (data_profile a)
                              (data_eventAnalysis a) (data_contributionStats a) (data_events a)
                        in (Inr summaryData, storeSummary d cacheKey summaryData w1)))
      in case obj_get (cache w) cacheKey of
           None \<Rightarrow> fetch w
         | Some (summaryData, timestamp) \<Rightarrow>
             if dep_clock d (ticks w) - timestamp < CACHE_TTL
             then (Inr summaryData, w\<lparr>ticks := Suc (ticks w)\<rparr>)
             else fetch (w\<lparr>ticks := Suc (ticks w)\<rparr>))"

subsection \<open>The handler\<close>

text \<open>
  \<^verbatim>\<open>parseInt\<close>: leading white space, a sign, then hexadecimal digits after
  \<open>0x\<close> or else decimal digits, as many as there are; \<open>None\<close> is NaN.
\<close>

definition hexVal :: "char \<Rightarrow> int option" where
  "hexVal c =
     (if isDigit c then Some (digitVal c)
      else if CHR ''a'' \<le> c \<and> c \<le> CHR ''f'' then Some (int (of_char c) - 87)
      else if CHR ''A'' \<le> c \<and> c \<le> CHR ''F'' then Some (int (of_char c) - 55)
      else None)"

definition digitsValue :: "int \<Rightarrow> string \<Rightarrow> int option" where
  "digitsValue radix ds =
     (if ds = [] then None
      else Some (foldl (\<lambda>acc c. acc * radix + (case hexVal c of None \<Rightarrow> 0 | Some v \<Rightarrow> v)) 0 ds))"

definition parseInt :: "string \<Rightarrow> int option" where
  "parseInt s =
     (let s1 = dropWhile isWhiteSpace s;
          neg = (take 1 s1 = ''-'');
          s2 = (if take 1 s1 = ''-'' \<or> take 1 s1 = ''+'' then drop 1 s1 else s1);
          hex = (take 2 s2 = ''0x'' \<or> take 2 s2 = ''0X'');
          magnitude = (if hex then digitsValue 16 (takeWhile (\<lambda>c. hexVal c \<noteq> None) (drop 2 s2))
                       else digitsValue 10 (takeWhile isDigit s2))
      in case magnitude of None \<Rightarrow> None | Some m \<Rightarrow> Some (if neg then - m else m))"

definition generateErrorCard :: "string \<Rightarrow> string" where
  "generateErrorCard message =
     (let escapedMessage =
            take 100 (replaceAll CHR ''>'' ''&gt;''
              (replaceAll CHR ''<'' ''&lt;'' (replaceAll CHR ''&'' ''&amp;'' message)))
      in trim
         (concat
          [''\<newline>'',
           ''<svg width=\"495\" height=\"120\" viewBox=\"0 0 495 120\" fill=\"none\" xmlns=\"http://www.w3.org/2000/svg\">\<newline>'',
           ''  <style>\<newline>'',
           ''    .header { font: 600 18px '',
           [CHR 0x27],
           ''Segoe UI'',
           [CHR 0x27],
           '', Ubuntu, Sans-Serif; fill: #e74c3c; }\<newline>'',
           ''    .message { font: 400 14px '',
           [CHR 0x27],
           ''Segoe UI'',
           [CHR 0x27],
           '', Ubuntu, Sans-Serif; fill: #666; }\<newline>'',
           ''  </style>\<newline>'',
           ''  <rect x=\"0.5\" y=\"0.5\" rx=\"4.5\" width=\"494\" height=\"119\" fill=\"#ffeef0\" stroke=\"#e74c3c\" stroke-width=\"1\"/>\<newline>'',
           ''  <text x=\"25\" y=\"35\" class=\"header\">Error</text>\<newline>'',
           ''  <text x=\"25\" y=\"60\" class=\"message\">'',
           escapedMessage,
           ''</text>\<newline>'',
           ''  <text x=\"25\" y=\"85\" class=\"message\">Please check the username and try again.</text>\<newline>'',
           ''</svg>\<newline>'']))"

definition missingUsername :: response where
  "missingUsername =
     \<lparr>status = 400, headers = [(''Content-Type'', ''application/json'')],
      body = Json [(''error'', JStr ''Missing required parameter: username''),
                   (''usage'', JStr ''/?username=YOUR_GITHUB_USERNAME'')]\<rparr>"

definition invalidUsername :: response where
  "invalidUsername =
     \<lparr>status = 400, headers = [(''Content-Type'', ''application/json'')],
      body = Json [(''error'', JStr ''Invalid username format'')]\<rparr>"

definition invalidTheme :: "string \<Rightarrow> response" where
  "invalidTheme t =
     \<lparr>status = 400, headers = [(''Content-Type'', ''application/json'')],
      body = Json [(''error'', JStr (''Invalid theme: '' @ t)),
                   (''available_themes'', JArr (Object_keys themes))]\<rparr>"

definition errorResponse :: "string \<Rightarrow> response" where
  "errorResponse message =
     \<lparr>status = (if sublist ''not found'' message then 404 else 500),
      headers = [(''Content-Type'', ''image/svg+xml''),
                 (''Cache-Control'', ''no-cache, no-store, must-revalidate'')],
      body = Text (generateErrorCard message)\<rparr>"

definition maxAgeText :: "string option \<Rightarrow> string" where
  "maxAgeText cache_seconds =
     (case (case cache_seconds of
              None \<Rightarrow> Some 14400
            | Some t \<Rightarrow> if t = [] then Some 14400 else parseInt t) of
        None \<Rightarrow> ''NaN''
      | Some n \<Rightarrow> showInt (min n 86400))"

definition cardResponse :: "deps \<Rightarrow> request \<Rightarrow> string \<Rightarrow> summaryData \<Rightarrow> response" where
  "cardResponse d req theme summaryData =
     (let options =
            \<lparr>ho_theme = theme,
             ho_showBorder = (q_border req \<noteq> Some ''false''),
             ho_borderRadius = (case q_border_radius req of
                                  None \<Rightarrow> None
                                | Some t \<Rightarrow> if t = [] then None else Some t),
             ho_hideStats = (q_hide_stats req = Some ''true''),
             ho_hideProjects = (q_hide_projects req = Some ''true'')\<rparr>;
          svg = (if q_type req = Some ''compact'' then dep_compactCard d summaryData options
                 else if q_type req = Some ''languages'' then dep_languagesCard d summaryData options
                 else dep_activityCard d summaryData options)
      in \<lparr>status = 200,
          headers = [(''Cache-Control'', ''public, max-age='' @ maxAgeText (q_cache_seconds req)),
                     (''Content-Type'', ''image/svg+xml'')],
          body = Text svg\<rparr>)"

definition handler :: "deps \<Rightarrow> request \<Rightarrow> world \<Rightarrow> response \<times> world" where
  "handler d req w =
     (let theme = (case q_theme req of None \<Rightarrow> ''default'' | Some t \<Rightarrow> t)
      in case q_username req of
           None \<Rightarrow> (missingUsername, w)
         | Some user \<Rightarrow>
             if user = [] then (missingUsername, w)
             else if \<not> usernameRegex user then (invalidUsername, w)
             else if obj_get themes theme = None then (invalidTheme theme, w)
             else (let githubToken =
                         (case dep_GITHUB_TOKEN d of
                            None \<Rightarrow> h_x_github_token req
                          | Some t \<Rightarrow> if t = [] then h_x_github_token req else Some t)
                   in case getCachedData d user githubToken w of
                        (Inl message, w1) \<Rightarrow> (errorResponse message, w1)
                      | (Inr summaryData, w1) \<Rightarrow> (cardResponse d req theme summaryData, w1)))"

text \<open>A data source that knows nobody, and an environment around it.\<close>

definition emptyUpstream :: upstream where
  "emptyUpstream =
     \<lparr>getUser = (\<lambda>u t. Inl (HttpFailure 404)), getEvents = (\<lambda>u t. Inl (HttpFailure 404)),
      getRepos = (\<lambda>u t. Inl (HttpFailure 404))\<rparr>"

definition exampleDeps :: deps where
  "exampleDeps =
     \<lparr>dep_runtime = utcRuntime, dep_upstream = emptyUpstream, dep_clock = (\<lambda>n. int n),
      dep_GITHUB_TOKEN = None,
      dep_activityCard = (\<lambda>s ho. ''<svg/>''),
      dep_compactCard = (\<lambda>s ho. ''<svg/>''),
      dep_languagesCard = (\<lambda>s ho. ''<svg/>'')\<rparr>"

definition emptyWorld :: world where
  "emptyWorld = \<lparr>cache = [], requests = [], ticks = 0\<rparr>"

definition requestFor :: "string \<Rightarrow> request" where
  "requestFor u =
     \<lparr>q_username = Some u, q_theme = None, q_type = None, q_border = None,
      q_border_radius = None, q_hide_stats = None, q_hide_projects = None,
      q_cache_seconds = None, h_x_github_token = None\<rparr>"

subsection \<open>The languages card (\<^verbatim>\<open>generateLanguagesCard\<close>): its numbers and labels\<close>

text \<open>
  The card reads \<^verbatim>\<open>summaryData.languages\<close>, which the synthesizer fills with
  language names, and destructures each entry as \<^verbatim>\<open>[lang, size]\<close>: of a string
  that takes the first two characters, \<^verbatim>\<open>undefined\<close> where there is none. The
  values that arise are \<^verbatim>\<open>undefined\<close>, integers and NaN (\<open>Number None\<close>), and
  strings.
\<close>

datatype jsval = Undefined | Number "int option" | Str string

definition destructure :: "string \<Rightarrow> jsval \<times> jsval" where
  "destructure s =
     (case s of
        [] \<Rightarrow> (Undefined, Undefined)
      | a # rest \<Rightarrow> (Str [a], (case rest of [] \<Rightarrow> Undefined | b # rest2 \<Rightarrow> Str [b])))"

definition ToString :: "jsval \<Rightarrow> string" where
  "ToString v =
     (case v of
        Undefined \<Rightarrow> ''undefined''
      | Number None \<Rightarrow> ''NaN''
      | Number (Some i) \<Rightarrow> showInt i
      | Str s \<Rightarrow> s)"

text \<open>The operator \<^verbatim>\<open>+\<close>: a concatenation as soon as one side is a string.\<close>

definition js_plus :: "jsval \<Rightarrow> jsval \<Rightarrow> jsval" where
  "js_plus a b =
     (case (a, b) of
        (Number (Some i), Number (Some j)) \<Rightarrow> Number (Some (i + j))
      | (Str s, _) \<Rightarrow> Str (s @ ToString b)
      | (_, Str s) \<Rightarrow> Str (ToString a @ s)
      | _ \<Rightarrow> Number None)"

text \<open>\<^verbatim>\<open>v || 1\<close>: zero, NaN, the empty string and \<^verbatim>\<open>undefined\<close> are falsy.\<close>

definition orOne :: "jsval \<Rightarrow> jsval" where
  "orOne v =
     (case v of
        Undefined \<Rightarrow> Number (Some 1)
      | Number None \<Rightarrow> Number (Some 1)
      | Number (Some i) \<Rightarrow> if i = 0 then Number (Some 1) else v
      | Str s \<Rightarrow> if s = [] then Number (Some 1) else v)"

text \<open>
  Numbers as the division sees them: NaN, the infinities, and the finite values, kept
  exact. The conversion of a string to a number follows the grammar of ECMAScript for
  numeric strings: white space around a binary, octal or hexadecimal integer, or around a
  signed decimal with an optional fraction and exponent, or around \<open>Infinity\<close>; the
  empty string is 0. (The sign of a zero is not kept.)
\<close>

datatype jsnum = NaN | PosInf | NegInf | Fin rat

definition digitsOnly :: "string \<Rightarrow> bool" where
  "digitsOnly s = (s \<noteq> [] \<and> list_all isDigit s)"

definition decimalValue :: "string \<Rightarrow> int" where
  "decimalValue s = foldl (\<lambda>acc c. 10 * acc + digitVal c) 0 s"

definition radixInteger :: "int \<Rightarrow> string \<Rightarrow> jsnum" where
  "radixInteger radix ds =
     (if ds \<noteq> [] \<and> list_all (\<lambda>c. case hexVal c of None \<Rightarrow> False | Some v \<Rightarrow> v < radix) ds
      then Fin (of_int (foldl (\<lambda>acc c. acc * radix + (case hexVal c of None \<Rightarrow> 0 | Some v \<Rightarrow> v)) 0 ds))
      else NaN)"

definition signedInteger :: "string \<Rightarrow> int option" where
  "signedInteger s =
     (if take 1 s = ''-'' then (if digitsOnly (drop 1 s) then Some (- decimalValue (drop 1 s)) else None)
      else if take 1 s = ''+'' then (if digitsOnly (drop 1 s) then Some (decimalValue (drop 1 s)) else None)
      else if digitsOnly s then Some (decimalValue s) else None)"

definition powerOfTen :: "int \<Rightarrow> rat" where
  "powerOfTen e = (if e \<ge> 0 then 10 ^ nat e else 1 / 10 ^ nat (- e))"

definition unsignedDecimal :: "string \<Rightarrow> jsnum" where
  "unsignedDecimal s =
     (if s = ''Infinity'' then PosInf
      else (let ip = takeWhile isDigit s;
                r1 = dropWhile isDigit s;
                hasDot = (take 1 r1 = ''.'');
                fp = (if hasDot then takeWhile isDigit (drop 1 r1) else []);
                r2 = (if hasDot then dropWhile isDigit (drop 1 r1) else r1);
                ex = (if r2 = [] then Some 0
                      else if take 1 r2 = ''e'' \<or> take 1 r2 = ''E'' then signedInteger (drop 1 r2)
                      else None)
            in if ip = [] \<and> fp = [] then NaN
               else (case ex of
                       None \<Rightarrow> NaN
                     | Some e \<Rightarrow>
                         Fin (of_int (decimalValue (ip @ fp)) * powerOfTen (e - int (length fp))))))"

definition negate :: "jsnum \<Rightarrow> jsnum" where
  "negate n = (case n of NaN \<Rightarrow> NaN | PosInf \<Rightarrow> NegInf | NegInf \<Rightarrow> PosInf | Fin q \<Rightarrow> Fin (- q))"

definition StringToNumber :: "string \<Rightarrow> jsnum" where
  "StringToNumber s =
     (let t = trim s
      in if t = [] then Fin 0
         else if take 2 t = ''0x'' \<or> take 2 t = ''0X'' then radixInteger 16 (drop 2 t)
         else if take 2 t = ''0o'' \<or> take 2 t = ''0O'' then radixInteger 8 (drop 2 t)
         else if take 2 t = ''0b'' \<or> take 2 t = ''0B'' then radixInteger 2 (drop 2 t)
         else if take 1 t = ''-'' then negate (unsignedDecimal (drop 1 t))
         else if take 1 t = ''+'' then unsignedDecimal (drop 1 t)
         else unsignedDecimal t)"

definition ToNumber :: "jsval \<Rightarrow> jsnum" where
  "ToNumber v =
     (case v of
        Undefined \<Rightarrow> NaN
      | Number None \<Rightarrow> NaN
      | Number (Some i) \<Rightarrow> Fin (of_int i)
      | Str s \<Rightarrow> StringToNumber s)"

definition js_div :: "jsnum \<Rightarrow> jsnum \<Rightarrow> jsnum" where
  "js_div a b =
     (case (a, b) of
        (Fin x, Fin y) \<Rightarrow>
          if y = 0 then (if x = 0 then NaN else if x > 0 then PosInf else NegInf) else Fin (x / y)
      | (Fin x, PosInf) \<Rightarrow> Fin 0
      | (Fin x, NegInf) \<Rightarrow> Fin 0
      | (PosInf, Fin y) \<Rightarrow> if y < 0 then NegInf else PosInf
      | (NegInf, Fin y) \<Rightarrow> if y < 0 then PosInf else NegInf
      | _ \<Rightarrow> NaN)"

definition js_times :: "jsnum \<Rightarrow> rat \<Rightarrow> jsnum" where
  "js_times a k = (case a of Fin x \<Rightarrow> Fin (x * k) | _ \<Rightarrow> a)"

text \<open>
  \<^verbatim>\<open>x.toFixed(1)\<close>. For a finite number the text depends on the rounding of
  floating-point arithmetic: it is taken from the runtime, as a parameter \<open>fx\<close>.
  \<open>decimalFixed1\<close> is that text for a value that is exact: one digit after the point,
  a half rounded up.
\<close>

definition toFixed1 :: "(rat \<Rightarrow> string) \<Rightarrow> jsnum \<Rightarrow> string" where
  "toFixed1 fx n =
     (case n of NaN \<Rightarrow> ''NaN'' | PosInf \<Rightarrow> ''Infinity'' | NegInf \<Rightarrow> ''-Infinity'' | Fin q \<Rightarrow> fx q)"

definition decimalFixed1 :: "rat \<Rightarrow> string" where
  "decimalFixed1 q =
     (let n = \<lfloor>\<bar>q\<bar> * 10 + 1 / 2\<rfloor>
      in (if q < 0 \<and> n \<noteq> 0 then ''-'' else []) @ showInt (n div 10) @ ''.'' @ showInt (n mod 10))"

definition languageColors :: "string obj" where
  "languageColors =
     [(''JavaScript'', ''#f1e05a''),
      (''TypeScript'', ''#2b7489''),
      (''Python'', ''#3572A5''),
      (''Java'', ''#b07219''),
      (''Go'', ''#00ADD8''),
      (''Rust'', ''#dea584''),
      (''Ruby'', ''#701516''),
      (''PHP'', ''#4F5D95''),
      (''C++'', ''#f34b7d''),
      (''C'', ''#555555''),
      (''C#'', ''#178600''),
      (''Swift'', ''#ffac45''),
      (''Kotlin'', ''#F18E33''),
      (''Scala'', ''#c22d40''),
      (''Shell'', ''#89e051''),
      (''HTML'', ''#e34c26''),
      (''CSS'', ''#563d7c''),
      (''Vue'', ''#41b883''),
      (''Dart'', ''#00B4AB''),
      (''Elixir'', ''#6e4a7e'')]"

record languageDatum =
  ld_name :: jsval
  ld_percentage :: string
  ld_color :: string

text \<open>\<^verbatim>\<open>languages.reduce((sum, [_, size]) => sum + size, 0) || 1\<close>\<close>

definition totalSizeOf :: "string list \<Rightarrow> jsval" where
  "totalSizeOf langs =
     orOne (fold (\<lambda>entry sum. js_plus sum (snd (destructure entry))) langs (Number (Some 0)))"

definition languageDataOf :: "(rat \<Rightarrow> string) \<Rightarrow> string list \<Rightarrow> languageDatum list" where
  "languageDataOf fx langs =
     map (\<lambda>entry.
            (let lang = fst (destructure entry); sz = snd (destructure entry)
             in \<lparr>ld_name = lang,
                 ld_percentage =
                   toFixed1 fx (js_times (js_div (ToNumber sz) (ToNumber (totalSizeOf langs))) 100),
                 ld_color = (case obj_get languageColors (ToString lang) of
                               None \<Rightarrow> ''#858585''
                             | Some c \<Rightarrow> if c = [] then ''#858585'' else c)\<rparr>))
         (slice0 5 langs)"

text \<open>
  The label of one language. A name that is \<^verbatim>\<open>undefined\<close> has no length: the
  generator throws there, which is \<open>None\<close>.
\<close>

definition languageLabel :: "int \<Rightarrow> int \<Rightarrow> languageDatum \<Rightarrow> string option" where
  "languageLabel labelX labelY lang =
     (case ld_name lang of
        Str nm \<Rightarrow>
          Some (concat
               [''\<newline>'',
                ''  <g transform=\"translate('',
                showInt labelX,
                '', '',
                showInt labelY,
                '')\">\<newline>'',
                ''    <circle cx=\"4\" cy=\"5\" r=\"4\" fill=\"'',
                ld_color lang,
                ''\"/>\<newline>'',
                ''    <text x=\"12\" y=\"9\" class=\"lang-name\">'',
                escapeHtml nm,
                ''</text>\<newline>'',
                ''    <text x=\"'',
                showInt (12 + int (length nm) * 6 + 5),
                ''\" y=\"9\" class=\"lang-percent\">'',
                ld_percentage lang,
                ''%</text>\<newline>'',
                ''  </g>\<newline>''])
      | _ \<Rightarrow> None)"

text \<open>The loop over the labels: three to a row, 90 apart, the rows 20 apart.\<close>

fun languageLabels :: "nat \<Rightarrow> int \<Rightarrow> int \<Rightarrow> languageDatum list \<Rightarrow> string list option" where
  "languageLabels i labelX labelY [] = Some []"
| "languageLabels i labelX labelY (lang # rest) =
     (let y = (if i > 0 \<and> i mod 3 = 0 then labelY + 20 else labelY);
          x = (if i > 0 \<and> i mod 3 = 0 then 15 else labelX)
      in case languageLabel x y lang of
           None \<Rightarrow> None
         | Some l \<Rightarrow> (case languageLabels (Suc i) (x + 90) y rest of
                        None \<Rightarrow> None
                      | Some ls \<Rightarrow> Some (l # ls)))"

definition generateLanguagesCard_labels :: "(rat \<Rightarrow> string) \<Rightarrow> summaryData \<Rightarrow> string list option" where
  "generateLanguagesCard_labels fx summaryData =
     languageLabels 0 15 60 (languageDataOf fx (summary_languages summaryData))"

text \<open>A character that, alone in a string, converts to a number: a digit or white space.\<close>

definition numericChar :: "char \<Rightarrow> bool" where
  "numericChar c = (isDigit c \<or> isWhiteSpace c)"

text \<open>The second character of a name is no size: there is none, or it is not numeric.\<close>

definition noSizeIn :: "string \<Rightarrow> bool" where
  "noSizeIn l = (case l of a # b # rest \<Rightarrow> \<not> numericChar b | _ \<Rightarrow> True)"

definition pipelineSummary :: "int obj \<Rightarrow> summaryData" where
  "pipelineSummary langs =
     generateActivitySummary exampleProfile (exampleAnalysis 7) (exampleStats langs) []"

text \<open>The two texts of a label: the name and the percentage, each in its element.\<close>

definition labelNameText :: "string \<Rightarrow> string" where
  "labelNameText nm = ''class=\"lang-name\">'' @ escapeHtml nm @ ''</text>''"

definition labelPercentText :: "string \<Rightarrow> string" where
  "labelPercentText p = ''class=\"lang-percent\">'' @ p @ ''%</text>''"

subsection \<open>Notions the streak property is stated with\<close>

text \<open>
  The calendar days that hold an event: the day numbers of the date portions that are
  valid dates \<^verbatim>\<open>YYYY-MM-DD\<close>. An event list is well dated when every date portion
  is empty or such a date.
\<close>

definition dayOfEvent :: "event \<Rightarrow> int option" where
  "dayOfEvent ev = (case dateOf ev of None \<Rightarrow> None | Some d \<Rightarrow> isoDay d)"

definition eventDays :: "event list \<Rightarrow> int set" where
  "eventDays evs =
     set (concat (map (\<lambda>ev. case dayOfEvent ev of None \<Rightarrow> [] | Some n \<Rightarrow> [n]) evs))"

definition wellDated :: "event list \<Rightarrow> bool" where
  "wellDated evs =
     list_all (\<lambda>ev. case dateOf ev of None \<Rightarrow> True | Some d \<Rightarrow> d = [] \<or> isoDay d \<noteq> None) evs"

text \<open>
  \<open>n\<close> is the length of the longest run of consecutive days in \<open>S\<close>: some \<open>n\<close>
  days in a row, starting at a day \<open>a\<close>, all lie in \<open>S\<close>, and no more than \<open>n\<close> do.
\<close>

definition isLongestRun :: "int set \<Rightarrow> int \<Rightarrow> bool" where
  "isLongestRun S n =
     (0 \<le> n \<and> (\<exists>a. {a..<a + n} \<subseteq> S) \<and> (\<forall>a m. {a..<a + m} \<subseteq> S \<longrightarrow> m \<le> n))"

text \<open>The walk of the streak computation, on day numbers in place of date keys.\<close>

fun dayWalk :: "int list \<Rightarrow> int \<Rightarrow> int \<Rightarrow> int" where
  "dayWalk (p # c # rest) cur mx =
     (if c - p = 1 then dayWalk (c # rest) (cur + 1) mx else dayWalk (c # rest) 1 (max mx cur))"
| "dayWalk ds cur mx = max mx cur"

definition eventAt :: "string \<Rightarrow> event" where
  "eventAt stamp =
     \<lparr>type = ''PushEvent'', repo_name = Some ''test/repo'', created_at = Some stamp,
      payload = None\<rparr>"

definition streakExample :: "event list" where
  "streakExample =
     [eventAt ''2024-01-15T10:00:00Z'', eventAt ''2024-01-16T10:00:00Z'',
      eventAt ''2024-01-17T10:00:00Z'']"

definition gapExample :: "event list" where
  "gapExample =
     [eventAt ''2024-03-01T10:00:00Z'', eventAt ''2024-02-28T09:00:00Z'',
      eventAt ''2024-02-29T23:59:59Z'', eventAt ''2024-03-04T10:00:00Z'',
      eventAt ''2024-03-05T10:00:00Z'', eventAt ''2024-02-28T08:00:00Z'']"

section \<open>Properties of the event analyzer\<close>

lemma obj_add_distinct:
  "distinct (map fst ob) \<Longrightarrow> distinct (map fst (obj_add ob k n))"
  by (simp add: obj_add_def obj_set_def distinct_update)






lemma indexOf_mem:
  "v \<in> set xs \<Longrightarrow>
   0 \<le> indexOf xs v \<and> nat (indexOf xs v) < length xs \<and> xs ! nat (indexOf xs v) = v \<and>
   (\<forall>j < nat (indexOf xs v). xs ! j \<noteq> v)"
proof (induction xs)
  case Nil
  then show ?case by simp
next
  case (Cons x xs)
  show ?case
  proof (cases "x = v")
    case True
    then show ?thesis by simp
  next
    case False
    with Cons.prems have m: "v \<in> set xs" by simp
    note ih = Cons.IH [OF m]
    from ih have nn: "\<not> indexOf xs v < 0" by simp
    have eq: "indexOf (x # xs) v = indexOf xs v + 1"
      using False nn by (simp add: Let_def)
    have n: "nat (indexOf xs v + 1) = Suc (nat (indexOf xs v))"
      using ih by (simp add: nat_add_distrib)
    show ?thesis
      unfolding eq n using ih False by (auto simp: less_Suc_eq_0_disj)
  qed
qed

lemma Math_max_Max:
  assumes "xs \<noteq> []"
  shows "Math_max xs = Some (Max (set xs))"
proof (cases xs)
  case Nil
  with assms show ?thesis by simp
next
  case (Cons a list)
  then show ?thesis using Max.set_eq_fold [of a list] by simp
qed

lemma getHours_less: "getHours rt t < 24"
  by (simp add: getHours_def nat_less_iff)

lemma hourOf_less: "hourOf rt ev = Some h \<Longrightarrow> h < 24"
  by (auto simp: hourOf_def getHours_less split: option.splits)

lemma hourly_fold:
  "length (acc_hourlyActivity (fold (tally_event rt) events s)) = length (acc_hourlyActivity s) \<and>
   (\<forall>i < length (acc_hourlyActivity s).
      acc_hourlyActivity (fold (tally_event rt) events s) ! i =
        acc_hourlyActivity s ! i + countWhere (\<lambda>ev. hourOf rt ev = Some i) events)"
proof (induction events arbitrary: s)
  case Nil
  then show ?case by (simp add: countWhere_def)
next
  case (Cons ev events)
  let ?s = "tally_event rt ev s"
  have len: "length (acc_hourlyActivity ?s) = length (acc_hourlyActivity s)"
    by (simp add: tally_event_def Let_def split: option.splits)
  have slot: "acc_hourlyActivity ?s ! i =
      acc_hourlyActivity s ! i + (if hourOf rt ev = Some i then 1 else 0)"
    if "i < length (acc_hourlyActivity s)" for i
    using that by (auto simp: tally_event_def Let_def nth_list_update split: option.splits)
  from Cons.IH [of ?s] len slot show ?case
    by (auto simp: countWhere_def)
qed

lemma hourly_slots:
  "length (acc_hourlyActivity (tally_events rt events)) = 24"
  "i < 24 \<Longrightarrow> acc_hourlyActivity (tally_events rt events) ! i =
     countWhere (\<lambda>ev. hourOf rt ev = Some i) events"
  using hourly_fold [of rt events initial_tally]
  by (simp_all add: tally_events_def initial_tally_def)

lemma peakHourOf_first_max:
  assumes "hs \<noteq> []"
  shows "\<exists>i < length hs. peakHourOf hs = int i \<and> hs ! i = Max (set hs) \<and> (\<forall>j < i. hs ! j < hs ! i)"
proof -
  let ?m = "Max (set hs)"
  have mem: "?m \<in> set hs" using assms by simp
  note ix = indexOf_mem [OF mem]
  let ?i = "nat (indexOf hs ?m)"
  have pk: "peakHourOf hs = int ?i"
    using ix assms by (simp add: peakHourOf_def Math_max_Max)
  have lt: "hs ! j < hs ! ?i" if "j < ?i" for j
  proof -
    from that ix have j: "j < length hs" by simp
    then have "hs ! j \<le> ?m" by simp
    moreover from ix that have "hs ! j \<noteq> ?m" by simp
    ultimately show ?thesis using ix by simp
  qed
  from ix pk lt show ?thesis by blast
qed

text \<open>
  C6. For every event list, the peak hour returned by \<^verbatim>\<open>analyzeEvents\<close> is
  the index of the maximum of the 24-slot per-hour counter, the lowest such index when
  several slots hold the maximum; slot \<open>i\<close> counts the events whose local hour is
  \<open>i\<close>; for no events the peak hour is 0.
\<close>

theorem analyzeEvents_peakHour:
  "length (acc_hourlyActivity (tally_events rt events)) = 24 \<and>
   (\<forall>i < 24. acc_hourlyActivity (tally_events rt events) ! i =
        countWhere (\<lambda>ev. hourOf rt ev = Some i) events) \<and>
   (\<exists>i < 24. peakHour (analyzeEvents rt events) = int i \<and>
        acc_hourlyActivity (tally_events rt events) ! i =
          Max (set (acc_hourlyActivity (tally_events rt events))) \<and>
        (\<forall>j < i. acc_hourlyActivity (tally_events rt events) ! j <
                 acc_hourlyActivity (tally_events rt events) ! i)) \<and>
   peakHour (analyzeEvents rt []) = 0"
proof -
  let ?hs = "acc_hourlyActivity (tally_events rt events)"
  have ne: "?hs \<noteq> []" using hourly_slots(1) [of rt events] by auto
  have pk: "peakHour (analyzeEvents rt events) = peakHourOf ?hs"
    by (simp add: analyzeEvents_def Let_def)
  have e: "peakHour (analyzeEvents rt []) = 0"
    by (simp add: analyzeEvents_def Let_def tally_events_def initial_tally_def peakHourOf_def
        eval_nat_numeral)
  from peakHourOf_first_max [OF ne] hourly_slots(1) [of rt events]
    hourly_slots(2) [where rt = rt and events = events] pk e
  show ?thesis by auto
qed

lemmas date_eval =
  isoParse_def isoDay_def isDigit_def num4_def num2_def digitVal_def DaysInMonth_def
  InLeapYear_def dayNumber_def DayFromYear_def monthStart_def upto.simps msPerDay_def msPerHour_def

lemma ex_hours:
  "map (hourOf utcRuntime) peakExample = [Some 10, Some 10, Some 15]"
  by (simp add: peakExample_def hourOf_def utcRuntime_def getHours_def date_eval)

text \<open>
  Two events at hour 10 and one at hour 15 (UTC, read in UTC): the peak hour is 10.
\<close>

theorem analyzeEvents_peakHour_witness:
  "peakHour (analyzeEvents utcRuntime peakExample) = 10 \<and>
   acc_hourlyActivity (tally_events utcRuntime peakExample) ! 10 = 2 \<and>
   acc_hourlyActivity (tally_events utcRuntime peakExample) ! 15 = 1 \<and>
   Max (set (acc_hourlyActivity (tally_events utcRuntime peakExample))) = 2"
proof -
  have hs: "acc_hourlyActivity (tally_events utcRuntime peakExample) =
      [0, 0, 0, 0, 0, 0, 0, 0, 0, 0, 2, 0, 0, 0, 0, 1, 0, 0, 0, 0, 0, 0, 0, 0]"
    using ex_hours
    by (simp add: tally_events_def tally_event_def initial_tally_def peakExample_def Let_def
        eval_nat_numeral)
  obtain i where i: "i < 24" "peakHour (analyzeEvents utcRuntime peakExample) = int i"
    "acc_hourlyActivity (tally_events utcRuntime peakExample) ! i =
       Max (set (acc_hourlyActivity (tally_events utcRuntime peakExample)))"
    using analyzeEvents_peakHour [of utcRuntime peakExample] by blast
  have mx: "Max (set (acc_hourlyActivity (tally_events utcRuntime peakExample))) = 2"
    unfolding hs by simp
  have "i = 10"
    using i(1) i(3) unfolding mx unfolding hs
    by (simp add: nth_Cons' eval_nat_numeral split: if_splits)
  with i(2) mx show ?thesis unfolding hs by simp
qed


lemma tally_daily_proj:
  "acc_dailyActivity (fold (tally_event rt) events s) = tallyBy dayKey events (acc_dailyActivity s)"
  by (induction events arbitrary: s)
     (simp_all add: tallyBy_def tally_event_def Let_def dayKey_def split: option.splits)



















lemma hasStreakPattern_iff:
  "hasStreakPattern (generateActivitySummary p ea cs evs) \<longleftrightarrow> activityStreak ea \<ge> 7"
  by (simp add: hasStreakPattern_def generateActivitySummary_def Let_def streakPatterns_def)

text \<open>
  C8. For every synthesizer input, the notable patterns hold a streak pattern if and only
  if the activity streak is at least 7; its severity is \<^verbatim>\<open>exceptional\<close> from 30
  on and \<^verbatim>\<open>notable\<close> below; a streak of 2 gives no streak pattern.
\<close>

theorem generateActivitySummary_streak_pattern:
  "(hasStreakPattern (generateActivitySummary p ea cs evs) \<longleftrightarrow> activityStreak ea \<ge> 7) \<and>
   (\<forall>q \<in> set (notablePatterns (generateActivitySummary p ea cs evs)).
      pattern_type q = ''streak'' \<longrightarrow>
      severity q = Some (if activityStreak ea \<ge> 30 then ''exceptional'' else ''notable'')) \<and>
   (activityStreak ea = 2 \<longrightarrow> \<not> hasStreakPattern (generateActivitySummary p ea cs evs))"
proof -
  have sev: "\<forall>q \<in> set (notablePatterns (generateActivitySummary p ea cs evs)).
      pattern_type q = ''streak'' \<longrightarrow>
      severity q = Some (if activityStreak ea \<ge> 30 then ''exceptional'' else ''notable'')"
    by (simp add: generateActivitySummary_def Let_def streakPatterns_def)
  show ?thesis using sev by (simp add: hasStreakPattern_iff)
qed

theorem generateActivitySummary_streak_pattern_witness:
  "hasStreakPattern (generateActivitySummary exampleProfile (exampleAnalysis 7) (exampleStats []) []) \<and>
   map severity (filter (\<lambda>q. pattern_type q = ''streak'')
     (notablePatterns (generateActivitySummary exampleProfile (exampleAnalysis 7) (exampleStats []) [])))
     = [Some ''notable''] \<and>
   map severity (filter (\<lambda>q. pattern_type q = ''streak'')
     (notablePatterns (generateActivitySummary exampleProfile (exampleAnalysis 30) (exampleStats []) [])))
     = [Some ''exceptional''] \<and>
   \<not> hasStreakPattern (generateActivitySummary exampleProfile (exampleAnalysis 2) (exampleStats []) [])"
proof -
  have a: "activityStreak (exampleAnalysis n) = n" for n by (simp add: exampleAnalysis_def)
  from generateActivitySummary_streak_pattern [of exampleProfile "exampleAnalysis 7" "exampleStats []" "[]"]
  have h7: "hasStreakPattern (generateActivitySummary exampleProfile (exampleAnalysis 7) (exampleStats []) [])"
    unfolding a by simp
  from generateActivitySummary_streak_pattern [of exampleProfile "exampleAnalysis 2" "exampleStats []" "[]"]
  have h2: "\<not> hasStreakPattern (generateActivitySummary exampleProfile (exampleAnalysis 2) (exampleStats []) [])"
    unfolding a by simp
  have s7: "map severity (filter (\<lambda>q. pattern_type q = ''streak'')
     (notablePatterns (generateActivitySummary exampleProfile (exampleAnalysis 7) (exampleStats []) [])))
     = [Some ''notable'']"
    by (simp add: generateActivitySummary_def Let_def streakPatterns_def a)
  have s30: "map severity (filter (\<lambda>q. pattern_type q = ''streak'')
     (notablePatterns (generateActivitySummary exampleProfile (exampleAnalysis 30) (exampleStats []) [])))
     = [Some ''exceptional'']"
    by (simp add: generateActivitySummary_def Let_def streakPatterns_def a)
  from h7 h2 s7 s30 show ?thesis by simp
qed

lemma keys_obj_add:
  "Object_keys (obj_add ob k n) =
     (if k \<in> set (Object_keys ob) then Object_keys ob else Object_keys ob @ [k])"
  by (simp add: Object_keys_def obj_add_def obj_set_def update_keys)

lemma filter_notin_neq:
  "filter (\<lambda>y. y \<notin> set (ks @ [l])) xs = filter (\<lambda>y. y \<notin> set ks) (filter (\<lambda>y. y \<noteq> l) xs)"
  by (induction xs) auto

lemma filter_notin_absorb:
  "l \<in> set ks \<Longrightarrow> filter (\<lambda>y. y \<noteq> l \<and> y \<notin> set ks) xs = filter (\<lambda>y. y \<notin> set ks) xs"
  by (induction xs) auto

lemma Object_keys_Nil: "Object_keys [] = []"
  by (simp add: Object_keys_def)

lemma keys_fold_addLanguage:
  "Object_keys (fold addLanguage rs ob) =
     Object_keys ob @ filter (\<lambda>y. y \<notin> set (Object_keys ob)) (firstSeen (languageNames rs))"
proof (induction rs arbitrary: ob)
  case Nil
  then show ?case by (simp add: languageNames_def)
next
  case (Cons r rs)
  have names: "languageNames (r # rs) =
      (case language r of None \<Rightarrow> [] | Some l \<Rightarrow> if l = [] then [] else [l]) @ languageNames rs"
    by (simp add: languageNames_def)
  show ?case
  proof (cases "language r")
    case None
    then show ?thesis
      using Cons.IH [of ob] by (simp add: names addLanguage_def)
  next
    case (Some l)
    show ?thesis
    proof (cases "l = []")
      case True
      with Some show ?thesis using Cons.IH [of ob] by (simp add: names addLanguage_def)
    next
      case False
      have step: "addLanguage r ob = obj_add ob l (repo_size r)"
        using Some False by (simp add: addLanguage_def)
      show ?thesis
      proof (cases "l \<in> set (Object_keys ob)")
        case True
        then show ?thesis
          using Cons.IH [of "obj_add ob l (repo_size r)"] Some False
          by (simp add: names step keys_obj_add filter_notin_absorb)
      next
        case nin: False
        then show ?thesis
          using Cons.IH [of "obj_add ob l (repo_size r)"] Some False
          by (simp add: names step keys_obj_add filter_notin_neq)
      qed
    qed
  qed
qed

text \<open>
  C4, as the code has it. The \<^verbatim>\<open>languages\<close> field of the summary is the first
  five keys of the language mapping of the contribution statistics, in the enumeration
  order of that mapping, so it holds at most 5 names; the synthesizer does not sort it.
  For statistics that come from the aggregator that order is the order in which the
  languages first appear among the first 20 repositories.
\<close>

theorem generateActivitySummary_languages:
  "summary_languages (generateActivitySummary p ea cs evs) = take 5 (Object_keys (languages cs)) \<and>
   length (summary_languages (generateActivitySummary p ea cs evs)) \<le> 5 \<and>
   Object_keys (languages (aggregate repos)) = firstSeen (languageNames (take 20 repos))"
  by (simp add: generateActivitySummary_def Let_def slice0_def aggregate_def keys_fold_addLanguage
      Object_keys_Nil)

text \<open>
  The claim C4 as stated fails: with language \<open>A\<close> of size 1 listed before language
  \<open>B\<close> of size 2, the field is \<open>[A, B]\<close>, which is not descending by size.
\<close>

theorem generateActivitySummary_languages_counterexample:
  "length (summary_languages (generateActivitySummary exampleProfile (exampleAnalysis 7)
      (exampleStats [(''A'', 1), (''B'', 2)]) [])) \<le> 5 \<and>
   \<not> descendingBySize [(''A'', 1), (''B'', 2)]
       (summary_languages (generateActivitySummary exampleProfile (exampleAnalysis 7)
          (exampleStats [(''A'', 1), (''B'', 2)]) []))"
  by (simp add: generateActivitySummary_def Let_def slice0_def exampleStats_def Object_keys_def
      descendingBySize_def sizeOf_def countOf_def obj_get_def)

section \<open>Properties of the card renderer\<close>

subsection \<open>Escaping, character by character\<close>










subsection \<open>Texts without an opened script tag\<close>












































section \<open>Properties of the service entry point\<close>

lemma hyphen_not_alnum: "\<not> isAlnum CHR ''-''"
  by (simp add: isAlnum_def)

lemma loginTail_sound:
  "loginTail n cs \<Longrightarrow>
   length cs \<le> n \<and> (\<forall>c \<in> set cs. isAlnum c \<or> c = CHR ''-'') \<and>
   (cs \<noteq> [] \<longrightarrow> last cs \<noteq> CHR ''-'') \<and> \<not> sublist ''--'' cs"
proof (induction n cs rule: loginTail.induct)
  case (1 n)
  then show ?case by simp
next
  case (2 c cs)
  then show ?case by simp
next
  case (3 n c cs)
  from "3.prems" have tail: "loginTail n cs"
    and hd: "isAlnum c \<or> (c = CHR ''-'' \<and> (case cs of [] \<Rightarrow> False | d # ds \<Rightarrow> isAlnum d))"
    by simp_all
  note ih = "3.IH" [OF tail]
  have last: "last (c # cs) \<noteq> CHR ''-''"
    using hd ih hyphen_not_alnum by (cases cs) auto
  have nopre: "\<not> prefix ''--'' (c # cs)"
    using hd hyphen_not_alnum by (cases cs) auto
  from ih hd last nopre show ?case
    by (auto simp: sublist_Cons_right)
qed

lemma loginTail_complete:
  "length cs \<le> n \<Longrightarrow> (\<forall>c \<in> set cs. isAlnum c \<or> c = CHR ''-'') \<Longrightarrow>
   (cs \<noteq> [] \<longrightarrow> last cs \<noteq> CHR ''-'') \<Longrightarrow> \<not> sublist ''--'' cs \<Longrightarrow> loginTail n cs"
proof (induction n cs rule: loginTail.induct)
  case (1 n)
  then show ?case by simp
next
  case (2 c cs)
  then show ?case by simp
next
  case (3 n c cs)
  from "3.prems" have len: "length cs \<le> n" by simp
  from "3.prems" have chars: "\<forall>c \<in> set cs. isAlnum c \<or> c = CHR ''-''" by simp
  from "3.prems" have lst: "cs \<noteq> [] \<longrightarrow> last cs \<noteq> CHR ''-''" by auto
  from "3.prems" have nosub: "\<not> sublist ''--'' cs" and nopre: "\<not> prefix ''--'' (c # cs)"
    by (simp_all add: sublist_Cons_right)
  have tail: "loginTail n cs" by (rule "3.IH" [OF len chars lst nosub])
  have hd: "isAlnum c \<or> (c = CHR ''-'' \<and> (case cs of [] \<Rightarrow> False | d # ds \<Rightarrow> isAlnum d))"
  proof (cases "isAlnum c")
    case True
    then show ?thesis by simp
  next
    case False
    with "3.prems" have c: "c = CHR ''-''" by simp
    with "3.prems" obtain d ds where cs: "cs = d # ds" by (cases cs) auto
    with nopre c have "d \<noteq> CHR ''-''" by simp
    with chars cs have "isAlnum d" by auto
    with c cs show ?thesis by simp
  qed
  from tail hd show ?case by simp
qed

lemma usernameRegex_iff:
  "usernameRegex u \<longleftrightarrow> u \<noteq> [] \<and> \<not> violatesLoginGrammar u"
proof (cases u)
  case Nil
  then show ?thesis by (simp add: usernameRegex_def)
next
  case (Cons c cs)
  show ?thesis
  proof
    assume "usernameRegex u"
    with Cons have c: "isAlnum c" and t: "loginTail 38 cs" by (simp_all add: usernameRegex_def)
    note s = loginTail_sound [OF t]
    have "\<not> prefix ''--'' (c # cs)" using c hyphen_not_alnum by auto
    with s c hyphen_not_alnum show "u \<noteq> [] \<and> \<not> violatesLoginGrammar u"
      unfolding Cons violatesLoginGrammar_def
      by (auto simp: list_ex_iff sublist_Cons_right)
  next
    assume a: "u \<noteq> [] \<and> \<not> violatesLoginGrammar u"
    then have v: "\<not> violatesLoginGrammar (c # cs)" by (simp add: Cons)
    from v have c: "isAlnum c"
      by (auto simp: violatesLoginGrammar_def list_ex_iff)
    from v have "loginTail 38 cs"
      by (intro loginTail_complete)
         (auto simp: violatesLoginGrammar_def list_ex_iff sublist_Cons_right split: if_splits)
    with c show "usernameRegex u" by (simp add: Cons usernameRegex_def)
  qed
qed

text \<open>
  C10. For every username that violates the login grammar (a character that is neither
  alphanumeric nor a hyphen, a leading, trailing or doubled hyphen, more than 39
  characters) the handler answers with status 400 and leaves the world as it was: no
  request is sent to the data source, and the cache is not touched.
\<close>

theorem handler_rejects_invalid_username:
  assumes "q_username req = Some u" and "violatesLoginGrammar u"
  shows "status (fst (handler d req w)) = 400 \<and> snd (handler d req w) = w \<and>
         requests (snd (handler d req w)) = requests w"
proof -
  from assms(2) have "\<not> usernameRegex u" by (simp add: usernameRegex_iff)
  with assms(1) show ?thesis
    by (simp add: handler_def Let_def missingUsername_def invalidUsername_def)
qed

theorem handler_rejects_invalid_username_witness:
  "violatesLoginGrammar ''-leading'' \<and> violatesLoginGrammar ''trailing-'' \<and>
   violatesLoginGrammar ''dou--ble'' \<and> violatesLoginGrammar ''under_score'' \<and>
   violatesLoginGrammar (replicate 40 CHR ''a'') \<and>
   status (fst (handler exampleDeps (requestFor ''-leading'') emptyWorld)) = 400 \<and>
   requests (snd (handler exampleDeps (requestFor ''-leading'') emptyWorld)) = [] \<and>
   status (fst (handler exampleDeps (requestFor (replicate 40 CHR ''a'')) emptyWorld)) = 400 \<and>
   requests (snd (handler exampleDeps (requestFor (replicate 40 CHR ''a'')) emptyWorld)) = []"
proof -
  have v1: "violatesLoginGrammar ''-leading''" by (simp add: violatesLoginGrammar_def)
  have v2: "violatesLoginGrammar ''trailing-''" by (simp add: violatesLoginGrammar_def)
  have v3: "violatesLoginGrammar ''dou--ble''"
    by (simp add: violatesLoginGrammar_def sublist_Cons_right)
  have v4: "violatesLoginGrammar ''under_score''"
    by (simp add: violatesLoginGrammar_def isAlnum_def)
  have v5: "violatesLoginGrammar (replicate 40 CHR ''a'')" by (simp add: violatesLoginGrammar_def)
  have q: "q_username (requestFor x) = Some x" for x by (simp add: requestFor_def)
  from handler_rejects_invalid_username [OF q v1, of exampleDeps emptyWorld]
    handler_rejects_invalid_username [OF q v5, of exampleDeps emptyWorld]
    v1 v2 v3 v4 v5
  show ?thesis by (simp add: emptyWorld_def)
qed

text \<open>A well-formed username does reach the data source.\<close>

lemma valid_user_fetches:
  "requests (snd (handler exampleDeps (requestFor ''octocat'') emptyWorld)) =
     [''/users/octocat'', ''/users/octocat/events/public'', ''/users/octocat/repos''] \<and>
   status (fst (handler exampleDeps (requestFor ''octocat'') emptyWorld)) = 404"
  by (simp add: handler_def Let_def requestFor_def usernameRegex_def isAlnum_def eval_nat_numeral
      themes_def obj_get_def exampleDeps_def emptyWorld_def getCachedData_def
      fetchAllActivityData_def emptyUpstream_def failureMessage_def errorResponse_def
      sublist_Cons_right)

section \<open>Properties of the languages card\<close>

lemma destructure_name: "l \<noteq> [] \<Longrightarrow> fst (destructure l) = Str [hd l]"
  by (cases l) (simp_all add: destructure_def)

lemma trim_single: "\<not> isWhiteSpace b \<Longrightarrow> trim [b] = [b]"
  by (simp add: trim_def)

lemma StringToNumber_single:
  assumes "\<not> numericChar b"
  shows "StringToNumber [b] = NaN"
proof -
  from assms have d: "\<not> isDigit b" and w: "\<not> isWhiteSpace b" by (simp_all add: numericChar_def)
  have u: "unsignedDecimal [] = NaN" by (simp add: unsignedDecimal_def)
  have v: "unsignedDecimal [b] = NaN" using d by (simp add: unsignedDecimal_def)
  show ?thesis
    using u v by (simp add: StringToNumber_def trim_single [OF w] Let_def negate_def)
qed

lemma size_NaN: "noSizeIn l \<Longrightarrow> ToNumber (snd (destructure l)) = NaN"
proof (cases l)
  case Nil
  then show ?thesis by (simp add: destructure_def ToNumber_def)
next
  case (Cons a rest)
  assume n: "noSizeIn l"
  show ?thesis
  proof (cases rest)
    case Nil
    with Cons show ?thesis by (simp add: destructure_def ToNumber_def)
  next
    case (Cons b rest2)
    with n \<open>l = a # rest\<close> have "\<not> numericChar b" by (simp add: noSizeIn_def)
    then have "StringToNumber [b] = NaN" by (rule StringToNumber_single)
    with Cons \<open>l = a # rest\<close> show ?thesis by (simp add: destructure_def ToNumber_def)
  qed
qed

lemma percentage_NaN: "toFixed1 fx (js_times (js_div NaN t) k) = ''NaN''"
  by (simp add: toFixed1_def js_times_def js_div_def)

lemma languageDataOf_length: "length (languageDataOf fx names) = min 5 (length names)"
  by (simp add: languageDataOf_def slice0_def)

lemma languageDataOf_nth:
  assumes "i < length names" "i < 5"
  shows "ld_name (languageDataOf fx names ! i) = fst (destructure (names ! i))"
    and "noSizeIn (names ! i) \<Longrightarrow> ld_percentage (languageDataOf fx names ! i) = ''NaN''"
  using assms by (simp_all add: languageDataOf_def slice0_def Let_def size_NaN percentage_NaN)

lemma languageLabel_name:
  assumes "ld_name d = Str nm"
  shows "\<exists>t. languageLabel x y d = Some t \<and> sublist (labelNameText nm) t \<and>
             sublist (labelPercentText (ld_percentage d)) t"
proof -
  let ?pre1 = "''\<newline>'' @ ''  <g transform=\"translate('' @ showInt x @ '', '' @ showInt y @
      '')\">\<newline>'' @ ''    <circle cx=\"4\" cy=\"5\" r=\"4\" fill=\"'' @ ld_color d @ ''\"/>\<newline>'' @
      ''    <text x=\"12\" y=\"9\" ''"
  let ?post1 = "''\<newline>'' @ ''    <text x=\"'' @ showInt (12 + int (length nm) * 6 + 5) @
      ''\" y=\"9\" class=\"lang-percent\">'' @ ld_percentage d @ ''%</text>\<newline>'' @ ''  </g>\<newline>''"
  let ?pre2 = "''\<newline>'' @ ''  <g transform=\"translate('' @ showInt x @ '', '' @ showInt y @
      '')\">\<newline>'' @ ''    <circle cx=\"4\" cy=\"5\" r=\"4\" fill=\"'' @ ld_color d @ ''\"/>\<newline>'' @
      ''    <text x=\"12\" y=\"9\" class=\"lang-name\">'' @ escapeHtml nm @ ''</text>\<newline>'' @
      ''    <text x=\"'' @ showInt (12 + int (length nm) * 6 + 5) @ ''\" y=\"9\" ''"
  let ?post2 = "''\<newline>'' @ ''  </g>\<newline>''"
  obtain t where t: "languageLabel x y d = Some t" using assms by (simp add: languageLabel_def)
  have 1: "t = ?pre1 @ labelNameText nm @ ?post1"
    using t assms by (simp add: languageLabel_def labelNameText_def)
  have 2: "t = ?pre2 @ labelPercentText (ld_percentage d) @ ?post2"
    using t assms by (simp add: languageLabel_def labelPercentText_def)
  have "sublist (labelNameText nm) t" unfolding sublist_def using 1 by blast
  moreover have "sublist (labelPercentText (ld_percentage d)) t" unfolding sublist_def using 2 by blast
  ultimately show ?thesis using t by blast
qed

lemma languageLabels_total:
  "\<forall>d \<in> set ds. \<exists>nm. ld_name d = Str nm \<Longrightarrow>
   \<exists>ls. languageLabels i x y ds = Some ls \<and> length ls = length ds \<and>
        (\<forall>k < length ds. \<exists>x' y'. languageLabel x' y' (ds ! k) = Some (ls ! k))"
proof (induction ds arbitrary: i x y)
  case Nil
  then show ?case by simp
next
  case (Cons d ds)
  let ?y = "if i > 0 \<and> i mod 3 = 0 then y + 20 else y"
  let ?x = "if i > 0 \<and> i mod 3 = 0 then 15 else x"
  from Cons.prems obtain nm where nm: "ld_name d = Str nm" by auto
  from languageLabel_name [OF nm, of ?x ?y] obtain t where t: "languageLabel ?x ?y d = Some t"
    by blast
  from Cons.prems have "\<forall>d \<in> set ds. \<exists>nm. ld_name d = Str nm" by simp
  from Cons.IH [OF this, of "Suc i" "?x + 90" ?y] obtain ls where
    ls: "languageLabels (Suc i) (?x + 90) ?y ds = Some ls" "length ls = length ds"
        "\<forall>k < length ds. \<exists>x' y'. languageLabel x' y' (ds ! k) = Some (ls ! k)"
    by blast
  have r: "languageLabels i x y (d # ds) = Some (t # ls)"
    using t ls(1) by (simp add: Let_def)
  have "\<exists>x' y'. languageLabel x' y' ((d # ds) ! k) = Some ((t # ls) ! k)"
    if "k < length (d # ds)" for k
  proof (cases k)
    case 0
    with t show ?thesis by auto
  next
    case (Suc k')
    with that ls(3) show ?thesis by simp
  qed
  with r ls(2) show ?case by simp
qed

text \<open>
  C5, as the code has it. When the languages card is applied to a summary produced by the
  synthesizer, whose language names are not empty, every language gets a label; the name
  in it is the first character of the language name (escaped), and the percentage in it
  is \<open>NaN%\<close> for every language whose name has no second character or a second
  character that is neither a digit nor white space. (A digit or white space in that
  place is read as a size, and the label may then show a number.)
\<close>

theorem languagesCard_labels_of_pipeline:
  assumes "\<forall>l \<in> set (summary_languages (generateActivitySummary p ea cs evs)). l \<noteq> []"
  shows "\<exists>labels.
     generateLanguagesCard_labels fx (generateActivitySummary p ea cs evs) = Some labels \<and>
     length labels = length (summary_languages (generateActivitySummary p ea cs evs)) \<and>
     (\<forall>i < length (summary_languages (generateActivitySummary p ea cs evs)).
        sublist (labelNameText [hd (summary_languages (generateActivitySummary p ea cs evs) ! i)])
          (labels ! i) \<and>
        (noSizeIn (summary_languages (generateActivitySummary p ea cs evs) ! i) \<longrightarrow>
           sublist (labelPercentText ''NaN'') (labels ! i)))"
proof -
  let ?names = "summary_languages (generateActivitySummary p ea cs evs)"
  let ?data = "languageDataOf fx ?names"
  have len5: "length ?names \<le> 5"
    by (simp add: generateActivitySummary_def Let_def slice0_def)
  then have len: "length ?data = length ?names" by (simp add: languageDataOf_length)
  have nm: "ld_name (?data ! i) = Str [hd (?names ! i)]" if "i < length ?names" for i
  proof -
    from that len5 have "i < 5" by simp
    from languageDataOf_nth(1) [OF that this, of fx] assms that show ?thesis
      by (simp add: destructure_name)
  qed
  have pc: "ld_percentage (?data ! i) = ''NaN''" if "i < length ?names" "noSizeIn (?names ! i)" for i
  proof -
    from that len5 have "i < 5" by simp
    from languageDataOf_nth(2) [OF that(1) this that(2)] show ?thesis .
  qed
  have "\<forall>d \<in> set ?data. \<exists>n. ld_name d = Str n"
    using nm len by (auto simp: in_set_conv_nth)
  from languageLabels_total [OF this, of 0 15 60] obtain labels where
    ls: "languageLabels 0 15 60 ?data = Some labels" "length labels = length ?data"
        "\<forall>k < length ?data. \<exists>x' y'. languageLabel x' y' (?data ! k) = Some (labels ! k)"
    by blast
  have each: "sublist (labelNameText [hd (?names ! i)]) (labels ! i) \<and>
      (noSizeIn (?names ! i) \<longrightarrow> sublist (labelPercentText ''NaN'') (labels ! i))"
    if i: "i < length ?names" for i
  proof -
    from ls(3) i len obtain x' y' where l: "languageLabel x' y' (?data ! i) = Some (labels ! i)"
      by auto
    from languageLabel_name [OF nm [OF i], of x' y'] l
    have a: "sublist (labelNameText [hd (?names ! i)]) (labels ! i)"
      and b: "sublist (labelPercentText (ld_percentage (?data ! i))) (labels ! i)"
      by auto
    from b pc [OF i] a show ?thesis by auto
  qed
  from ls(1,2) len each show ?thesis
    unfolding generateLanguagesCard_labels_def by auto
qed

lemma pipeline_names: "summary_languages (pipelineSummary langs) = take 5 (map fst langs)"
  by (simp add: pipelineSummary_def generateActivitySummary_def Let_def slice0_def
      exampleStats_def Object_keys_def)

lemma data_M4:
  "map ld_name (languageDataOf decimalFixed1 [''M4'']) = [Str ''M''] \<and>
   map ld_percentage (languageDataOf decimalFixed1 [''M4'']) = [''100.0'']"
  by code_simp

text \<open>
  The claim C5 as stated fails: for the single language \<open>M4\<close> the total is the string
  \<open>04\<close>, the size is the string \<open>4\<close>, and the percentage label is \<open>100.0%\<close>.
\<close>

theorem languagesCard_percentage_counterexample:
  "summary_languages (pipelineSummary [(''M4'', 100)]) = [''M4''] \<and>
   \<not> noSizeIn ''M4'' \<and>
   map ld_name (languageDataOf decimalFixed1 (summary_languages (pipelineSummary [(''M4'', 100)])))
     = [Str ''M''] \<and>
   map ld_percentage (languageDataOf decimalFixed1 (summary_languages (pipelineSummary [(''M4'', 100)])))
     = [''100.0'']"
  using data_M4
  by (simp add: pipeline_names noSizeIn_def numericChar_def isDigit_def)

theorem languagesCard_labels_of_pipeline_witness:
  "summary_languages (pipelineSummary [(''JavaScript'', 5000), (''Python'', 3000), (''C'', 10)])
     = [''JavaScript'', ''Python'', ''C''] \<and>
   noSizeIn ''JavaScript'' \<and> noSizeIn ''Python'' \<and> noSizeIn ''C'' \<and>
   (case generateLanguagesCard_labels decimalFixed1
           (pipelineSummary [(''JavaScript'', 5000), (''Python'', 3000), (''C'', 10)]) of
      None \<Rightarrow> False
    | Some labels \<Rightarrow> list_all (\<lambda>l. sublist (labelPercentText ''NaN'') l) labels)"
proof -
  let ?s = "pipelineSummary [(''JavaScript'', 5000), (''Python'', 3000), (''C'', 10)]"
  have names: "summary_languages ?s = [''JavaScript'', ''Python'', ''C'']"
    by (simp add: pipeline_names)
  have ns: "noSizeIn ''JavaScript''" "noSizeIn ''Python''" "noSizeIn ''C''"
    by (simp_all add: noSizeIn_def numericChar_def isDigit_def isWhiteSpace_def)
  have ne: "\<forall>l \<in> set (summary_languages ?s). l \<noteq> []" by (simp add: names)
  from languagesCard_labels_of_pipeline [of exampleProfile "exampleAnalysis 7"
      "exampleStats [(''JavaScript'', 5000), (''Python'', 3000), (''C'', 10)]" "[]" decimalFixed1]
    ne
  obtain labels where
    l: "generateLanguagesCard_labels decimalFixed1 ?s = Some labels" "length labels = 3"
       "\<forall>i < 3. noSizeIn (summary_languages ?s ! i) \<longrightarrow> sublist (labelPercentText ''NaN'') (labels ! i)"
    unfolding pipelineSummary_def [symmetric] names by auto
  from l(3) ns have "\<forall>i < 3. sublist (labelPercentText ''NaN'') (labels ! i)"
    by (simp add: names nth_Cons' All_less_Suc eval_nat_numeral)
  with l(2) have "list_all (\<lambda>l. sublist (labelPercentText ''NaN'') l) labels"
    by (simp add: list_all_length)
  with l(1) names ns show ?thesis by simp
qed

section \<open>The activity streak\<close>

subsection \<open>Runs of consecutive days\<close>

lemma isLongestRun_interval:
  assumes "0 \<le> n"
  shows "isLongestRun {p - n + 1..p} n"
proof -
  have ex: "{p - n + 1..<p - n + 1 + n} \<subseteq> {p - n + 1..p}" by auto
  have ub: "m \<le> n" if "{a..<a + m} \<subseteq> {p - n + 1..p}" for a m
  proof (cases "m \<le> 0")
    case True
    with assms show ?thesis by simp
  next
    case False
    then have "a \<in> {a..<a + m}" "a + m - 1 \<in> {a..<a + m}" by auto
    with that have "a \<in> {p - n + 1..p}" "a + m - 1 \<in> {p - n + 1..p}" by blast+
    then have "p - n + 1 \<le> a" "a + m - 1 \<le> p" by simp_all
    then show ?thesis by simp
  qed
  from assms ex ub show ?thesis unfolding isLongestRun_def by blast
qed

lemma run_one_side:
  fixes a m g :: int
  assumes sub: "{a..<a + m} \<subseteq> A \<union> B"
    and lo: "\<forall>x \<in> A. x < g" and hi: "\<forall>y \<in> B. g < y"
  shows "{a..<a + m} \<subseteq> A \<or> {a..<a + m} \<subseteq> B"
proof (rule ccontr)
  assume "\<not> ({a..<a + m} \<subseteq> A \<or> {a..<a + m} \<subseteq> B)"
  then obtain x y where x: "x \<in> {a..<a + m}" "x \<notin> A" and y: "y \<in> {a..<a + m}" "y \<notin> B"
    by blast
  from x sub have xb: "x \<in> B" by blast
  from y sub have ya: "y \<in> A" by blast
  from xb hi have "g < x" by blast
  moreover from ya lo have "y < g" by blast
  ultimately have "g \<in> {a..<a + m}" using x(1) y(1) by auto
  with sub have "g \<in> A \<union> B" by blast
  with lo hi show False by auto
qed

lemma isLongestRun_union:
  assumes A: "isLongestRun A n" and B: "isLongestRun B m"
    and lo: "\<forall>x \<in> A. x < g" and hi: "\<forall>y \<in> B. g < y"
  shows "isLongestRun (A \<union> B) (max n m)"
proof -
  from A B have nn: "0 \<le> max n m" by (auto simp: isLongestRun_def max_def)
  have ex: "\<exists>a. {a..<a + max n m} \<subseteq> A \<union> B"
  proof (cases "n \<le> m")
    case True
    from B obtain a where "{a..<a + m} \<subseteq> B" unfolding isLongestRun_def by blast
    with True show ?thesis by (intro exI [of _ a]) (auto simp: max_def)
  next
    case False
    from A obtain a where "{a..<a + n} \<subseteq> A" unfolding isLongestRun_def by blast
    with False show ?thesis by (intro exI [of _ a]) (auto simp: max_def)
  qed
  have ub: "k \<le> max n m" if "{a..<a + k} \<subseteq> A \<union> B" for a k
  proof -
    from run_one_side [OF that lo hi] show ?thesis
    proof
      assume "{a..<a + k} \<subseteq> A"
      with A have "k \<le> n" unfolding isLongestRun_def by blast
      then show ?thesis by simp
    next
      assume "{a..<a + k} \<subseteq> B"
      with B have "k \<le> m" unfolding isLongestRun_def by blast
      then show ?thesis by simp
    qed
  qed
  from nn ex ub show ?thesis unfolding isLongestRun_def by blast
qed

lemma isLongestRun_empty: "isLongestRun {} n \<longleftrightarrow> n = 0"
proof
  assume "isLongestRun {} n"
  then have "0 \<le> n" and "\<exists>a. {a..<a + n} \<subseteq> {}" by (simp_all add: isLongestRun_def)
  then show "n = 0" by auto
next
  assume "n = 0"
  then show "isLongestRun {} n" by (auto simp: isLongestRun_def)
qed

lemma dayWalk_longest:
  "sorted_wrt (<) (p # rest) \<Longrightarrow> 1 \<le> cur \<Longrightarrow>
   \<exists>l. isLongestRun ({p - cur + 1..p} \<union> set rest) l \<and> dayWalk (p # rest) cur mx = max mx l"
proof (induction rest arbitrary: p cur mx)
  case Nil
  from isLongestRun_interval [of cur p] Nil.prems show ?case by auto
next
  case (Cons c rest)
  from Cons.prems have pc: "p < c" and srt: "sorted_wrt (<) (c # rest)" by simp_all
  show ?case
  proof (cases "c - p = 1")
    case True
    from Cons.IH [OF srt, of "cur + 1" mx] Cons.prems obtain l where
      l: "isLongestRun ({c - (cur + 1) + 1..c} \<union> set rest) l"
         "dayWalk (c # rest) (cur + 1) mx = max mx l"
      by auto
    have "{c - (cur + 1) + 1..c} \<union> set rest = {p - cur + 1..p} \<union> set (c # rest)"
      using True Cons.prems(2) by auto
    with l True show ?thesis by auto
  next
    case False
    from Cons.IH [OF srt, of 1 "max mx cur"] obtain l where
      l: "isLongestRun ({c - 1 + 1..c} \<union> set rest) l"
         "dayWalk (c # rest) 1 (max mx cur) = max (max mx cur) l"
      by auto
    have B: "{c - 1 + 1..c} \<union> set rest = set (c # rest)" by auto
    have A: "isLongestRun {p - cur + 1..p} cur"
      using isLongestRun_interval [of cur p] Cons.prems(2) by simp
    have lo: "\<forall>x \<in> {p - cur + 1..p}. x < p + 1" by auto
    have hi: "\<forall>y \<in> set (c # rest). p + 1 < y"
      using srt pc False by auto
    from isLongestRun_union [OF A l(1) [unfolded B] lo hi]
    have "isLongestRun ({p - cur + 1..p} \<union> set (c # rest)) (max cur l)" .
    moreover have "dayWalk (p # c # rest) cur mx = max mx (max cur l)"
      using False l(2) by (simp add: max.assoc)
    ultimately show ?thesis by blast
  qed
qed

lemma dayWalk_streak:
  assumes "sorted_wrt (<) ds" "ds \<noteq> []"
  shows "isLongestRun (set ds) (dayWalk ds 1 0)"
proof -
  from assms obtain p rest where ds: "ds = p # rest" by (cases ds) auto
  from dayWalk_longest [of p rest 1 0] assms(1) ds obtain l where
    l: "isLongestRun ({p - 1 + 1..p} \<union> set rest) l" "dayWalk (p # rest) 1 0 = max 0 l"
    by auto
  have "{p - 1 + 1..p} \<union> set rest = set ds" using ds by auto
  moreover from l(1) have "0 \<le> l" by (simp add: isLongestRun_def)
  ultimately show ?thesis using l ds by simp
qed

subsection \<open>The calendar: day numbers grow with the date\<close>

lemma div_next:
  fixes x k :: int
  assumes "0 < k"
  shows "(x + 1) div k = x div k + (if (x + 1) mod k = 0 then 1 else 0)"
proof (cases "x mod k + 1 = k")
  case True
  have "x + 1 = (k * (x div k) + x mod k) + 1" by (simp only: mult_div_mod_eq)
  also have "\<dots> = k * (x div k) + (x mod k + 1)" by (simp only: add.assoc)
  also have "\<dots> = k * (x div k) + k" by (simp only: True)
  also have "\<dots> = k * (x div k + 1) + 0" by (simp only: distrib_left mult_1_right add_0_right)
  finally have e: "x + 1 = k * (x div k + 1) + 0" .
  have z: "(0::int) \<le> 0" by simp
  have d: "(x + 1) div k = x div k + 1" by (rule int_div_pos_eq [OF e z assms])
  have m: "(x + 1) mod k = 0" by (rule int_mod_pos_eq [OF e z assms])
  show ?thesis unfolding d m by simp
next
  case False
  have lo: "0 \<le> x mod k" by (rule pos_mod_sign [OF assms])
  have hi: "x mod k < k" by (rule pos_mod_bound [OF assms])
  from lo have r1: "0 \<le> x mod k + 1" by linarith
  from hi False have r2: "x mod k + 1 < k" by linarith
  have "x + 1 = (k * (x div k) + x mod k) + 1" by (simp only: mult_div_mod_eq)
  also have "\<dots> = k * (x div k) + (x mod k + 1)" by (simp only: add.assoc)
  finally have e: "x + 1 = k * (x div k) + (x mod k + 1)" .
  have d: "(x + 1) div k = x div k" by (rule int_div_pos_eq [OF e r1 r2])
  have m: "(x + 1) mod k = x mod k + 1" by (rule int_mod_pos_eq [OF e r1 r2])
  from lo have "x mod k + 1 \<noteq> 0" by linarith
  then show ?thesis unfolding d m by simp
qed

lemma shift_mod:
  "(y - 1968) mod 4 = y mod (4::int)" "(y - 1900) mod 100 = y mod (100::int)"
  "(y - 1600) mod 400 = y mod (400::int)"
proof -
  have "(y + 4 * (- 492)) mod 4 = y mod 4" by (rule mod_mult_self2)
  then show "(y - 1968) mod 4 = y mod 4" by simp
  have "(y + 100 * (- 19)) mod 100 = y mod 100" by (rule mod_mult_self2)
  then show "(y - 1900) mod 100 = y mod 100" by simp
  have "(y + 400 * (- 4)) mod 400 = y mod 400" by (rule mod_mult_self2)
  then show "(y - 1600) mod 400 = y mod 400" by simp
qed

lemma mod_400_100_4:
  fixes y :: int
  shows "y mod 400 = 0 \<Longrightarrow> y mod 100 = 0" "y mod 100 = 0 \<Longrightarrow> y mod 4 = 0"
  using mod_mod_cancel [of 100 400 y] mod_mod_cancel [of 4 100 y] by simp_all

lemma DayFromYear_step:
  "DayFromYear (y + 1) = DayFromYear y + (if InLeapYear y then 366 else 365)"
proof -
  have s: "y + 1 - 1969 = (y - 1969) + 1" "y + 1 - 1901 = (y - 1901) + 1"
    "y + 1 - 1601 = (y - 1601) + 1" by simp_all
  have t: "y - 1969 + 1 = y - 1968" "y - 1901 + 1 = y - 1900" "y - 1601 + 1 = y - 1600"
    by simp_all
  have a: "(y + 1 - 1969) div 4 = (y - 1969) div 4 + (if y mod 4 = 0 then 1 else 0)"
    unfolding s(1) div_next [of 4 "y - 1969", simplified] t shift_mod ..
  have b: "(y + 1 - 1901) div 100 = (y - 1901) div 100 + (if y mod 100 = 0 then 1 else 0)"
    unfolding s(2) div_next [of 100 "y - 1901", simplified] t shift_mod ..
  have c: "(y + 1 - 1601) div 400 = (y - 1601) div 400 + (if y mod 400 = 0 then 1 else 0)"
    unfolding s(3) div_next [of 400 "y - 1601", simplified] t shift_mod ..
  show ?thesis
    unfolding DayFromYear_def InLeapYear_def a b c
    using mod_400_100_4 [of y] by auto
qed

lemma DayFromYear_mono:
  "y < y' \<Longrightarrow> DayFromYear y + (if InLeapYear y then 366 else 365) \<le> DayFromYear y'"
proof (induction y' rule: int_gr_induct [of y])
  case base
  show ?case by (simp add: DayFromYear_step)
next
  case (step i)
  have "DayFromYear i \<le> DayFromYear (i + 1)" by (simp add: DayFromYear_step)
  with step show ?case by simp
qed

lemma DaysInMonth_pos: "28 \<le> DaysInMonth y m"
  by (simp add: DaysInMonth_def)

lemma monthStart_next: "1 \<le> m \<Longrightarrow> monthStart y (m + 1) = monthStart y m + DaysInMonth y m"
  by (simp add: monthStart_def upto_rec2 [of 1 m])

lemma monthStart_mono:
  assumes "1 \<le> a" and "a \<le> b"
  shows "monthStart y a \<le> monthStart y b"
  using assms(2)
proof (induction b rule: int_ge_induct)
  case base
  show ?case by simp
next
  case (step i)
  from step assms(1) have "1 \<le> i" by simp
  from monthStart_next [OF this, of y] DaysInMonth_pos [of y i] step show ?case by simp
qed

lemma monthStart_13: "monthStart y 13 = (if InLeapYear y then 366 else 365)"
  by (simp add: monthStart_def upto.simps DaysInMonth_def)

lemma dayOfYear_bound:
  assumes "1 \<le> m" "m \<le> 12" "d \<le> DaysInMonth y m"
  shows "monthStart y m + d \<le> (if InLeapYear y then 366 else 365)"
proof -
  have "monthStart y m + d \<le> monthStart y (m + 1)"
    using assms by (simp add: monthStart_next)
  also have "\<dots> \<le> monthStart y 13"
    using assms by (intro monthStart_mono) simp_all
  finally show ?thesis by (simp add: monthStart_13)
qed

lemma monthStart_nonneg: "1 \<le> m \<Longrightarrow> 0 \<le> monthStart y m"
  using monthStart_mono [of 1 m y] by (simp add: monthStart_def)

lemma dayNumber_mono:
  assumes v: "1 \<le> m" "m \<le> 12" "1 \<le> d" "d \<le> DaysInMonth y m"
    and v': "1 \<le> m'" "m' \<le> 12" "1 \<le> d'" "d' \<le> DaysInMonth y' m'"
    and lt: "y < y' \<or> (y = y' \<and> (m < m' \<or> (m = m' \<and> d < d')))"
  shows "dayNumber y m d < dayNumber y' m' d'"
proof -
  consider "y < y'" | "y = y'" "m < m'" | "y = y'" "m = m'" "d < d'" using lt by blast
  then show ?thesis
  proof cases
    case 1
    from dayOfYear_bound [OF v(1,2,4)] DayFromYear_mono [OF 1] monthStart_nonneg [OF v'(1), of y'] v'(3)
    show ?thesis by (simp add: dayNumber_def)
  next
    case 2
    have "monthStart y m + d \<le> monthStart y (m + 1)"
      using v by (simp add: monthStart_next)
    also have "\<dots> \<le> monthStart y m'"
      using v 2 by (intro monthStart_mono) simp_all
    finally show ?thesis using 2 v'(3) by (simp add: dayNumber_def)
  next
    case 3
    then show ?thesis by (simp add: dayNumber_def)
  qed
qed

subsection \<open>The order of date keys is the order of the days\<close>

lemma char_less_digitVal: "c < c' \<longleftrightarrow> digitVal c < digitVal c'"
  by (simp add: less_char_def digitVal_def)

lemma char_eq_digitVal: "c = c' \<longleftrightarrow> digitVal c = digitVal c'"
  by (auto simp: digitVal_def)

lemma isDigit_range: "isDigit c \<Longrightarrow> 0 \<le> digitVal c \<and> digitVal c \<le> 9"
  by (simp add: isDigit_def less_eq_char_def digitVal_def)

lemma isoDate_shape:
  assumes "isoDate s = Some (y, m, d)"
  shows "\<exists>y1 y2 y3 y4 m1 m2 d1 d2.
     s = [y1, y2, y3, y4, CHR ''-'', m1, m2, CHR ''-'', d1, d2] \<and>
     list_all isDigit [y1, y2, y3, y4, m1, m2, d1, d2] \<and>
     y = num4 y1 y2 y3 y4 \<and> m = num2 m1 m2 \<and> d = num2 d1 d2 \<and>
     1 \<le> m \<and> m \<le> 12 \<and> 1 \<le> d \<and> d \<le> DaysInMonth y m"
  using assms by (cases s rule: isoDate.cases) (auto simp: Let_def split: if_splits)

lemma digits_lex:
  fixes a1 a2 a3 a4 a5 a6 a7 a8 b1 b2 b3 b4 b5 b6 b7 b8 :: int
  assumes "0 \<le> a2" "a2 \<le> 9" "0 \<le> a3" "a3 \<le> 9" "0 \<le> a4" "a4 \<le> 9"
    "0 \<le> a5" "a5 \<le> 9" "0 \<le> a6" "a6 \<le> 9" "0 \<le> a7" "a7 \<le> 9" "0 \<le> a8" "a8 \<le> 9"
    "0 \<le> b2" "b2 \<le> 9" "0 \<le> b3" "b3 \<le> 9" "0 \<le> b4" "b4 \<le> 9"
    "0 \<le> b5" "b5 \<le> 9" "0 \<le> b6" "b6 \<le> 9" "0 \<le> b7" "b7 \<le> 9" "0 \<le> b8" "b8 \<le> 9"
    and "a1 < b1 \<or> a1 = b1 \<and> (a2 < b2 \<or> a2 = b2 \<and> (a3 < b3 \<or> a3 = b3 \<and> (a4 < b4 \<or> a4 = b4 \<and>
         (a5 < b5 \<or> a5 = b5 \<and> (a6 < b6 \<or> a6 = b6 \<and> (a7 < b7 \<or> a7 = b7 \<and> a8 < b8))))))"
  shows "1000 * a1 + 100 * a2 + 10 * a3 + a4 < 1000 * b1 + 100 * b2 + 10 * b3 + b4 \<or>
         (1000 * a1 + 100 * a2 + 10 * a3 + a4 = 1000 * b1 + 100 * b2 + 10 * b3 + b4 \<and>
          (10 * a5 + a6 < 10 * b5 + b6 \<or> (10 * a5 + a6 = 10 * b5 + b6 \<and> 10 * a7 + a8 < 10 * b7 + b8)))"
  using assms by linarith

lemma isoDay_mono:
  assumes s: "isoDay s = Some a" and t: "isoDay t = Some b" and lt: "s < t"
  shows "a < b"
proof -
  from s obtain y m d where sd: "isoDate s = Some (y, m, d)" and a: "a = dayNumber y m d"
    by (auto simp: isoDay_def split: option.splits)
  from t obtain y' m' d' where td: "isoDate t = Some (y', m', d')" and b: "b = dayNumber y' m' d'"
    by (auto simp: isoDay_def split: option.splits)
  from isoDate_shape [OF sd] obtain y1 y2 y3 y4 m1 m2 d1 d2 where
    ss: "s = [y1, y2, y3, y4, CHR ''-'', m1, m2, CHR ''-'', d1, d2]"
    and sdig: "list_all isDigit [y1, y2, y3, y4, m1, m2, d1, d2]"
    and sy: "y = num4 y1 y2 y3 y4" "m = num2 m1 m2" "d = num2 d1 d2"
    and sv: "1 \<le> m" "m \<le> 12" "1 \<le> d" "d \<le> DaysInMonth y m"
    by blast
  from isoDate_shape [OF td] obtain z1 z2 z3 z4 n1 n2 e1 e2 where
    ts: "t = [z1, z2, z3, z4, CHR ''-'', n1, n2, CHR ''-'', e1, e2]"
    and tdig: "list_all isDigit [z1, z2, z3, z4, n1, n2, e1, e2]"
    and ty: "y' = num4 z1 z2 z3 z4" "m' = num2 n1 n2" "d' = num2 e1 e2"
    and tv: "1 \<le> m'" "m' \<le> 12" "1 \<le> d'" "d' \<le> DaysInMonth y' m'"
    by blast
  from lt have lex:
    "digitVal y1 < digitVal z1 \<or> digitVal y1 = digitVal z1 \<and>
      (digitVal y2 < digitVal z2 \<or> digitVal y2 = digitVal z2 \<and>
      (digitVal y3 < digitVal z3 \<or> digitVal y3 = digitVal z3 \<and>
      (digitVal y4 < digitVal z4 \<or> digitVal y4 = digitVal z4 \<and>
      (digitVal m1 < digitVal n1 \<or> digitVal m1 = digitVal n1 \<and>
      (digitVal m2 < digitVal n2 \<or> digitVal m2 = digitVal n2 \<and>
      (digitVal d1 < digitVal e1 \<or> digitVal d1 = digitVal e1 \<and> digitVal d2 < digitVal e2))))))"
    unfolding ss ts
    by (simp add: char_less_digitVal char_eq_digitVal [of y1] char_eq_digitVal [of y2]
        char_eq_digitVal [of y3] char_eq_digitVal [of y4] char_eq_digitVal [of m1]
        char_eq_digitVal [of m2] char_eq_digitVal [of d1])
  from sdig tdig have r:
    "0 \<le> digitVal y2" "digitVal y2 \<le> 9" "0 \<le> digitVal y3" "digitVal y3 \<le> 9"
    "0 \<le> digitVal y4" "digitVal y4 \<le> 9" "0 \<le> digitVal m1" "digitVal m1 \<le> 9"
    "0 \<le> digitVal m2" "digitVal m2 \<le> 9" "0 \<le> digitVal d1" "digitVal d1 \<le> 9"
    "0 \<le> digitVal d2" "digitVal d2 \<le> 9"
    "0 \<le> digitVal z2" "digitVal z2 \<le> 9" "0 \<le> digitVal z3" "digitVal z3 \<le> 9"
    "0 \<le> digitVal z4" "digitVal z4 \<le> 9" "0 \<le> digitVal n1" "digitVal n1 \<le> 9"
    "0 \<le> digitVal n2" "digitVal n2 \<le> 9" "0 \<le> digitVal e1" "digitVal e1 \<le> 9"
    "0 \<le> digitVal e2" "digitVal e2 \<le> 9"
    by (simp_all add: isDigit_range)
  from digits_lex [OF r lex]
  have "y < y' \<or> (y = y' \<and> (m < m' \<or> (m = m' \<and> d < d')))"
    unfolding sy ty num4_def num2_def .
  from dayNumber_mono [OF sv tv this] show ?thesis by (simp add: a b)
qed

subsection \<open>From the date keys to the days\<close>

lemma tallyBy_keys:
  "distinct (Object_keys ob) \<Longrightarrow>
   distinct (Object_keys (tallyBy g xs ob)) \<and>
   set (Object_keys (tallyBy g xs ob)) = set (Object_keys ob) \<union> {k. \<exists>x \<in> set xs. g x = Some k}"
proof (induction xs arbitrary: ob)
  case Nil
  then show ?case by (simp add: tallyBy_def)
next
  case (Cons x xs)
  have step: "tallyBy g (x # xs) ob =
      tallyBy g xs (case g x of None \<Rightarrow> ob | Some k \<Rightarrow> obj_add ob k 1)"
    by (simp add: tallyBy_def)
  show ?case
  proof (cases "g x")
    case None
    with Cons show ?thesis unfolding step by auto
  next
    case (Some k)
    have d: "distinct (Object_keys (obj_add ob k 1))"
      using Cons.prems obj_add_distinct [of ob k 1] by (simp add: Object_keys_def)
    have s: "set (Object_keys (obj_add ob k 1)) = insert k (set (Object_keys ob))"
      by (auto simp: keys_obj_add)
    from Cons.IH [OF d] Some s show ?thesis unfolding step by auto
  qed
qed

lemma daily_keys:
  "distinct (Object_keys (dailyActivity (analyzeEvents rt evs)))"
  "set (Object_keys (dailyActivity (analyzeEvents rt evs))) = {k. \<exists>ev \<in> set evs. dayKey ev = Some k}"
proof -
  have e: "dailyActivity (analyzeEvents rt evs) = tallyBy dayKey evs []"
    by (simp add: analyzeEvents_def Let_def tally_events_def tally_daily_proj initial_tally_def)
  have "distinct (Object_keys ([] :: int obj))" by (simp add: Object_keys_def)
  from tallyBy_keys [OF this, of dayKey evs]
  show "distinct (Object_keys (dailyActivity (analyzeEvents rt evs)))"
    "set (Object_keys (dailyActivity (analyzeEvents rt evs))) = {k. \<exists>ev \<in> set evs. dayKey ev = Some k}"
    unfolding e by (simp_all add: Object_keys_def)
qed

lemma round_div_exact: "Math_round_div (msPerDay * k) msPerDay = k"
proof -
  have e: "2 * (msPerDay * k) + msPerDay = (2 * msPerDay) * k + msPerDay"
    by (simp only: mult.assoc)
  have "0 \<le> msPerDay" "msPerDay < 2 * msPerDay" by (simp_all add: msPerDay_def)
  from int_div_pos_eq [OF e this] show ?thesis by (simp only: Math_round_div_def)
qed

lemma diffDays_conforming:
  assumes "conforming rt" "isoDay a = Some m" "isoDay b = Some n"
  shows "diffDays rt a b = Some (n - m)"
proof -
  from assms have "Date_parse rt a = Some (msPerDay * m)" "Date_parse rt b = Some (msPerDay * n)"
    by (simp_all add: conforming_def)
  moreover have "msPerDay * n - msPerDay * m = msPerDay * (n - m)"
    by (simp only: right_diff_distrib)
  ultimately show ?thesis by (simp add: diffDays_def round_div_exact)
qed

lemma streakWalk_dayWalk:
  assumes c: "conforming rt"
  shows "\<forall>k \<in> set dates. isoDay k \<noteq> None \<Longrightarrow>
         streakWalk rt dates cur mx = dayWalk (map (\<lambda>k. the (isoDay k)) dates) cur mx"
proof (induction dates arbitrary: cur mx)
  case Nil
  show ?case by simp
next
  case (Cons a rest)
  show ?case
  proof (cases rest)
    case Nil
    then show ?thesis by simp
  next
    case (Cons b rest')
    from Cons.prems \<open>rest = b # rest'\<close> obtain m n where
      mn: "isoDay a = Some m" "isoDay b = Some n" by auto
    have d: "diffDays rt a b = Some (n - m)" by (rule diffDays_conforming [OF c mn])
    from Cons.prems have v: "\<forall>k \<in> set rest. isoDay k \<noteq> None" by simp
    note ih = Cons.IH [OF v]
    show ?thesis
      unfolding \<open>rest = b # rest'\<close>
      using ih [of "cur + 1" mx] ih [of 1 "max mx cur"] d mn
      by (simp add: \<open>rest = b # rest'\<close>)
  qed
qed

lemma keys_days:
  assumes "wellDated evs"
  shows "\<forall>k \<in> set (Object_keys (dailyActivity (analyzeEvents rt evs))). isoDay k \<noteq> None"
    and "(\<lambda>k. the (isoDay k)) ` set (Object_keys (dailyActivity (analyzeEvents rt evs))) = eventDays evs"
proof -
  have valid: "isoDay k \<noteq> None" if "ev \<in> set evs" "dayKey ev = Some k" for ev k
  proof -
    from that(2) have "dateOf ev = Some k" "k \<noteq> []"
      by (auto simp: dayKey_def split: option.splits if_splits)
    with assms that(1) show ?thesis by (auto simp: wellDated_def list_all_iff)
  qed
  then show "\<forall>k \<in> set (Object_keys (dailyActivity (analyzeEvents rt evs))). isoDay k \<noteq> None"
    by (auto simp: daily_keys(2))
  have days: "eventDays evs = {n. \<exists>ev \<in> set evs. dayOfEvent ev = Some n}"
    by (auto simp: eventDays_def split: option.splits)
  have iso_nil: "isoDay [] = None" by (simp add: isoDay_def)
  have a: "the (isoDay k) \<in> eventDays evs" if "ev \<in> set evs" "dayKey ev = Some k" for ev k
  proof -
    from that(2) have "dateOf ev = Some k"
      by (auto simp: dayKey_def split: option.splits if_splits)
    moreover from valid [OF that] obtain n where "isoDay k = Some n" by auto
    ultimately have "dayOfEvent ev = Some (the (isoDay k))" by (simp add: dayOfEvent_def)
    with that(1) show ?thesis unfolding days by blast
  qed
  have b: "\<exists>k. (\<exists>ev \<in> set evs. dayKey ev = Some k) \<and> n = the (isoDay k)"
    if "ev \<in> set evs" "dayOfEvent ev = Some n" for ev n
  proof -
    from that(2) obtain k where k: "dateOf ev = Some k" "isoDay k = Some n"
      by (auto simp: dayOfEvent_def split: option.splits)
    with iso_nil have "k \<noteq> []" by auto
    with k have "dayKey ev = Some k" by (simp add: dayKey_def)
    with that(1) k show ?thesis by auto
  qed
  show "(\<lambda>k. the (isoDay k)) ` set (Object_keys (dailyActivity (analyzeEvents rt evs))) = eventDays evs"
  proof (rule set_eqI, rule iffI)
    fix n
    assume "n \<in> (\<lambda>k. the (isoDay k)) ` set (Object_keys (dailyActivity (analyzeEvents rt evs)))"
    then obtain k ev where "ev \<in> set evs" "dayKey ev = Some k" "n = the (isoDay k)"
      unfolding daily_keys(2) by blast
    with a show "n \<in> eventDays evs" by blast
  next
    fix n
    assume "n \<in> eventDays evs"
    then obtain ev where "ev \<in> set evs" "dayOfEvent ev = Some n" unfolding days by blast
    from b [OF this] show "n \<in> (\<lambda>k. the (isoDay k)) ` set (Object_keys (dailyActivity (analyzeEvents rt evs)))"
      unfolding daily_keys(2) by blast
  qed
qed

lemma strict_days:
  assumes "sorted_wrt (<) dates" "\<forall>k \<in> set dates. isoDay k \<noteq> None"
  shows "sorted_wrt (<) (map (\<lambda>k. the (isoDay k)) dates)"
proof -
  have "sorted_wrt (\<lambda>a b. the (isoDay a) < the (isoDay b)) dates"
  proof (rule sorted_wrt_mono_rel [OF _ assms(1)])
    fix a b
    assume "a \<in> set dates" "b \<in> set dates" "a < b"
    with assms(2) have "isoDay a \<noteq> None" "isoDay b \<noteq> None" by blast+
    then obtain m n where mn: "isoDay a = Some m" "isoDay b = Some n" by blast
    from isoDay_mono [OF mn \<open>a < b\<close>] mn show "the (isoDay a) < the (isoDay b)" by simp
  qed
  then show ?thesis by (simp add: sorted_wrt_map)
qed

text \<open>
  C1, as the code has it. On a runtime that reads dates as ECMAScript requires, and for
  every event list in which every date portion (the text of a timestamp before its first
  \<open>T\<close>) is empty or a valid date \<^verbatim>\<open>YYYY-MM-DD\<close>, the activity streak is the
  length of the longest run of consecutive calendar days that each hold an event; a gap
  closes a run and a new one starts; for no events the streak is 0.
\<close>

theorem analyzeEvents_streak:
  assumes "conforming rt" and "wellDated evs"
  shows "isLongestRun (eventDays evs) (activityStreak (analyzeEvents rt evs)) \<and>
         activityStreak (analyzeEvents rt []) = 0"
proof -
  let ?keys = "Object_keys (dailyActivity (analyzeEvents rt evs))"
  let ?dates = "sort ?keys"
  let ?days = "map (\<lambda>k. the (isoDay k)) ?dates"
  have streak: "activityStreak (analyzeEvents rt evs) = streakOf rt ?dates"
    by (simp add: analyzeEvents_def Let_def)
  have valid: "\<forall>k \<in> set ?dates. isoDay k \<noteq> None"
    using keys_days(1) [OF assms(2), of rt] by simp
  have strict: "sorted_wrt (<) ?dates"
    using daily_keys(1) [of rt evs] by (simp add: strict_sorted_iff)
  have set_days: "set ?days = eventDays evs"
    using keys_days(2) [OF assms(2), of rt] by simp
  have main: "isLongestRun (eventDays evs) (streakOf rt ?dates)"
  proof (cases "?dates = []")
    case True
    with set_days have "eventDays evs = {}" by simp
    with True show ?thesis by (simp add: streakOf_def isLongestRun_empty)
  next
    case False
    then have ne: "?days \<noteq> []" by (simp only: map_is_Nil_conv not_False_eq_True)
    from False have "0 < length ?dates" by (simp only: length_greater_0_conv not_False_eq_True)
    then have "streakOf rt ?dates = streakWalk rt ?dates 1 0" by (simp only: streakOf_def if_True)
    also have "\<dots> = dayWalk ?days 1 0" by (rule streakWalk_dayWalk [OF assms(1) valid])
    finally have e: "streakOf rt ?dates = dayWalk ?days 1 0" .
    from dayWalk_streak [OF strict_days [OF strict valid] ne] show ?thesis
      unfolding e set_days .
  qed
  have empty: "activityStreak (analyzeEvents rt []) = 0"
    by (simp add: analyzeEvents_def Let_def tally_events_def initial_tally_def streakOf_def
        Object_keys_def)
  from main empty show ?thesis unfolding streak by simp
qed

lemma conforming_utcRuntime: "conforming utcRuntime"
  by (simp add: conforming_def utcRuntime_def isoParse_def)

lemma examples_wellDated: "wellDated streakExample" "wellDated gapExample"
  by code_simp+

lemma examples_streak:
  "activityStreak (analyzeEvents utcRuntime streakExample) = 3"
  "activityStreak (analyzeEvents utcRuntime gapExample) = 3"
  by code_simp+

lemma gap_days: "length (Object_keys (dailyActivity (analyzeEvents utcRuntime gapExample))) = 5"
  by code_simp

text \<open>
  One event on each of 2024-01-15, 16 and 17 gives 3. Events on 2024-02-28, 02-29, 03-01,
  03-04 and 03-05, in any order and two of them on one day, give 3 as well, not the
  5 days that hold events.
\<close>

theorem analyzeEvents_streak_witness:
  "conforming utcRuntime \<and> wellDated streakExample \<and> wellDated gapExample \<and>
   activityStreak (analyzeEvents utcRuntime streakExample) = 3 \<and>
   isLongestRun (eventDays streakExample) 3 \<and>
   activityStreak (analyzeEvents utcRuntime gapExample) = 3 \<and>
   isLongestRun (eventDays gapExample) 3 \<and>
   length (Object_keys (dailyActivity (analyzeEvents utcRuntime gapExample))) = 5"
proof -
  from analyzeEvents_streak [OF conforming_utcRuntime examples_wellDated(1)]
  have 1: "isLongestRun (eventDays streakExample) 3" by (simp add: examples_streak)
  from analyzeEvents_streak [OF conforming_utcRuntime examples_wellDated(2)]
  have 2: "isLongestRun (eventDays gapExample) 3" by (simp add: examples_streak)
  from 1 2 conforming_utcRuntime examples_wellDated examples_streak gap_days
  show ?thesis by simp
qed

text \<open>
  The claim C1 as stated, for every event list, fails: a single event stamped
  \<^verbatim>\<open>garbage\<close> lies on no calendar day, and the streak is 1.
\<close>

theorem analyzeEvents_streak_counterexample:
  "activityStreak (analyzeEvents utcRuntime [eventAt ''garbage'']) = 1 \<and>
   eventDays [eventAt ''garbage''] = {} \<and>
   \<not> isLongestRun (eventDays [eventAt ''garbage''])
       (activityStreak (analyzeEvents utcRuntime [eventAt ''garbage'']))"
proof -
  have s: "activityStreak (analyzeEvents utcRuntime [eventAt ''garbage'']) = 1"
    by code_simp
  have d: "eventDays [eventAt ''garbage''] = {}"
    by (simp add: eventDays_def dayOfEvent_def dateOf_def eventAt_def isoDay_def)
  from s d show ?thesis by (simp add: isLongestRun_empty)
qed

end
